theory Spec2Isabelle
  imports Main "HOL-Library.Word"
begin

section \<open>JavaScript values\<close>

text \<open>
  A JavaScript string is a sequence of 16-bit code units; \<open>length\<close> counts code units, as
  \<^verbatim>\<open>String.prototype.length\<close> does.  Error messages, file paths and error codes are
  built from ASCII literals only and are kept as HOL strings.
\<close>

type_synonym jschar = "16 word"
type_synonym jsstring = "jschar list"

definition js :: "string \<Rightarrow> jsstring" where
  "js s = map of_char s"

text \<open>
  Numbers.  The program never computes with a number: it tests numbers for truthiness and
  type and hands them to \<^verbatim>\<open>JSON.stringify\<close>.  \<open>Finite n\<close> is the integral number \<open>n\<close>
  (\<open>Finite 0\<close> is \<open>+0\<close>); the values that these operations treat in a way of their own,
  \<open>-0\<close>, \<^verbatim>\<open>NaN\<close> and the two infinities, are kept apart.
\<close>

datatype jsnum = Finite int | NegZero | NaN | PosInfinity | NegInfinity

text \<open>
  The values the program handles.  \<open>JDate d\<close> is a \<^verbatim>\<open>Date\<close> object whose time value is
  \<open>d\<close> milliseconds since the epoch, \<open>None\<close> being the invalid date.  An object is the
  list of its own properties in enumeration order.  Values read from the storage file
  contain neither \<open>JUndefined\<close> nor \<open>JDate\<close>.
\<close>

datatype jsval =
    JUndefined
  | JNull
  | JBool bool
  | JNum jsnum
  | JStr jsstring
  | JDate "int option"
  | JArr "jsval list"
  | JObj "(jsstring \<times> jsval) list"

fun truthy :: "jsval \<Rightarrow> bool" where
  "truthy JUndefined = False"
| "truthy JNull = False"
| "truthy (JBool b) = b"
| "truthy (JNum (Finite n)) = (n \<noteq> 0)"
| "truthy (JNum NegZero) = False"
| "truthy (JNum NaN) = False"
| "truthy (JNum PosInfinity) = True"
| "truthy (JNum NegInfinity) = True"
| "truthy (JStr s) = (s \<noteq> [])"
| "truthy (JDate d) = True"
| "truthy (JArr xs) = True"
| "truthy (JObj kvs) = True"

fun typeof :: "jsval \<Rightarrow> string" where
  "typeof JUndefined = ''undefined''"
| "typeof JNull = ''object''"
| "typeof (JBool b) = ''boolean''"
| "typeof (JNum n) = ''number''"
| "typeof (JStr s) = ''string''"
| "typeof (JDate d) = ''object''"
| "typeof (JArr xs) = ''object''"
| "typeof (JObj kvs) = ''object''"

text \<open>
  Property read \<^verbatim>\<open>v.k\<close> for the five names the program reads (\<^verbatim>\<open>id\<close>,
  \<^verbatim>\<open>description\<close>, \<^verbatim>\<open>completed\<close>, \<^verbatim>\<open>createdAt\<close>, \<^verbatim>\<open>updatedAt\<close>), on a value
  that is neither \<^verbatim>\<open>undefined\<close> nor \<^verbatim>\<open>null\<close>: none of these names is a property of a
  primitive, an array or a date, so only an object can answer.
\<close>

fun getprop :: "jsval \<Rightarrow> jsstring \<Rightarrow> jsval" where
  "getprop (JObj kvs) k = (case map_of kvs k of None \<Rightarrow> JUndefined | Some v \<Rightarrow> v)"
| "getprop v k = JUndefined"

datatype error =
    Error string
  | SyntaxError string
  | TypeError string
  | SystemError string string

fun message :: "error \<Rightarrow> string" where
  "message (Error m) = m"
| "message (SyntaxError m) = m"
| "message (TypeError m) = m"
| "message (SystemError c m) = m"

fun code :: "error \<Rightarrow> string option" where
  "code (SystemError c m) = Some c"
| "code e = None"

text \<open>
  The platform's date functions are parameters of the model: \<open>Date_of v\<close> is the time value
  of \<^verbatim>\<open>new Date(v)\<close> (\<open>None\<close> for an invalid date) and \<open>toISOString t\<close> the ISO-8601 text
  of the instant \<open>t\<close>.
\<close>

record platform =
  Date_of :: "jsval \<Rightarrow> int option"
  toISOString :: "int \<Rightarrow> jsstring"

text \<open>
  The system clock and the UUID generator are read through an environment: the sequence of
  values they will return and the number of values already taken.
\<close>

record env =
  clock :: "nat \<Rightarrow> int"
  ticks :: nat
  uuids :: "nat \<Rightarrow> jsstring"
  drawn :: nat

definition new_Date :: "env \<Rightarrow> int \<times> env" where
  "new_Date e = (clock e (ticks e), e\<lparr>ticks := Suc (ticks e)\<rparr>)"

definition uuidv4 :: "env \<Rightarrow> jsstring \<times> env" where
  "uuidv4 e = (uuids e (drawn e), e\<lparr>drawn := Suc (drawn e)\<rparr>)"

section \<open>The Todo model (models/Todo.js)\<close>

text \<open>\<^verbatim>\<open>String.prototype.trim\<close> strips the ECMAScript WhiteSpace and LineTerminator code units.\<close>

definition isWhiteSpace :: "jschar \<Rightarrow> bool" where
  "isWhiteSpace c \<longleftrightarrow>
     c \<in> set [0x9, 0xA, 0xB, 0xC, 0xD, 0x20, 0xA0, 0x1680, 0x2028, 0x2029, 0x202F, 0x205F,
              0x3000, 0xFEFF]
     \<or> (0x2000 \<le> c \<and> c \<le> 0x200A)"

definition trim :: "jsstring \<Rightarrow> jsstring" where
  "trim s = rev (dropWhile isWhiteSpace (rev (dropWhile isWhiteSpace s)))"

record Todo =
  todo_id :: jsval
  description :: jsstring
  completed :: bool
  createdAt :: "int option"
  updatedAt :: "int option"

fun validateDescription :: "jsval \<Rightarrow> error + jsstring" where
  "validateDescription (JStr s) =
     (let trimmed = trim s in
      if length trimmed = 0 then Inl (Error ''Description cannot be empty'')
      else if length trimmed > 500 then Inl (Error ''Description cannot exceed 500 characters'')
      else Inr trimmed)"
| "validateDescription v = Inl (Error ''Description must be a string'')"

text \<open>
  The constructor: the id is chosen first (drawing a UUID when the argument is falsy), then
  the description is validated, then the clock is read twice.
\<close>

definition new_Todo :: "jsval \<Rightarrow> jsval \<Rightarrow> env \<Rightarrow> (error + Todo) \<times> env" where
  "new_Todo descr ident e =
     (let (i, e1) = (if truthy ident then (ident, e)
                     else (let (u, e') = uuidv4 e in (JStr u, e')))
      in case validateDescription descr of
           Inl err \<Rightarrow> (Inl err, e1)
         | Inr d \<Rightarrow>
             (let (t1, e2) = new_Date e1; (t2, e3) = new_Date e2
              in (Inr \<lparr>todo_id = i, description = d, completed = False,
                       createdAt = Some t1, updatedAt = Some t2\<rparr>, e3)))"

definition updateDescription :: "jsval \<Rightarrow> Todo \<Rightarrow> env \<Rightarrow> (error + Todo) \<times> env" where
  "updateDescription newDescription todo e =
     (case validateDescription newDescription of
        Inl err \<Rightarrow> (Inl err, e)
      | Inr d \<Rightarrow> (let (t, e1) = new_Date e
                  in (Inr (todo\<lparr>description := d, updatedAt := Some t\<rparr>), e1)))"

definition toggleComplete_todo :: "Todo \<Rightarrow> env \<Rightarrow> Todo \<times> env" where
  "toggleComplete_todo todo e =
     (let (t, e1) = new_Date e
      in (todo\<lparr>completed := \<not> completed todo, updatedAt := Some t\<rparr>, e1))"

definition setCompleted :: "jsval \<Rightarrow> Todo \<Rightarrow> env \<Rightarrow> (error + Todo) \<times> env" where
  "setCompleted c todo e =
     (case c of
        JBool b \<Rightarrow> (let (t, e1) = new_Date e
                    in (Inr (todo\<lparr>completed := b, updatedAt := Some t\<rparr>), e1))
      | _ \<Rightarrow> (Inl (Error ''Completed status must be a boolean''), e))"

definition toJSON :: "Todo \<Rightarrow> jsval" where
  "toJSON todo =
     JObj [(js ''id'', todo_id todo),
           (js ''description'', JStr (description todo)),
           (js ''completed'', JBool (completed todo)),
           (js ''createdAt'', JDate (createdAt todo)),
           (js ''updatedAt'', JDate (updatedAt todo))]"

definition fromJSON :: "platform \<Rightarrow> jsval \<Rightarrow> env \<Rightarrow> (error + Todo) \<times> env" where
  "fromJSON P data e =
     (if \<not> truthy data \<or> typeof data \<noteq> ''object'' then (Inl (Error ''Invalid todo data''), e)
      else case new_Todo (getprop data (js ''description'')) (getprop data (js ''id'')) e of
             (Inl err, e1) \<Rightarrow> (Inl err, e1)
           | (Inr todo, e1) \<Rightarrow>
               (let todo1 = (case getprop data (js ''completed'') of
                               JBool b \<Rightarrow> todo\<lparr>completed := b\<rparr>
                             | _ \<Rightarrow> todo);
                    todo2 = (if truthy (getprop data (js ''createdAt''))
                             then todo1\<lparr>createdAt := Date_of P (getprop data (js ''createdAt''))\<rparr>
                             else todo1);
                    todo3 = (if truthy (getprop data (js ''updatedAt''))
                             then todo2\<lparr>updatedAt := Date_of P (getprop data (js ''updatedAt''))\<rparr>
                             else todo2)
                in (Inr todo3, e1)))"

section \<open>The record store (services/storageService.js)\<close>

text \<open>
  The Todo service receives its record store by injection and calls two of its operations.
  A store is modelled by these two operations over a state of the store's own.
\<close>

record 's store =
  loadTodos :: "'s \<Rightarrow> (error + jsval) \<times> 's"
  saveTodos :: "jsval \<Rightarrow> 's \<Rightarrow> (error + unit) \<times> 's"

text \<open>
  The file system.  A file holds either the text of a JSON document, modelled by the value
  \<^verbatim>\<open>JSON.parse\<close> returns for it, or text that \<^verbatim>\<open>JSON.parse\<close> rejects.  Directories
  are not modelled.  Every call of an \<^verbatim>\<open>fs\<close> function may fail for a reason outside the
  program (permissions, a full device, a blocked directory): \<open>plan\<close> says, for the
  \<open>n\<close>-th call, whether it fails and with which error, and \<open>calls\<close> counts the calls made
  so far.  A failing \<^verbatim>\<open>writeFile\<close> leaves its target untouched or holding truncated
  text, as the fault says; \<^verbatim>\<open>rename\<close> is atomic, and a call that fails otherwise
  changes nothing.
\<close>

datatype content = Json jsval | Malformed

datatype fault = Fault string string bool

record fsys =
  files :: "string \<rightharpoonup> content"
  plan :: "nat \<Rightarrow> fault option"
  calls :: nat

definition next_fault :: "fsys \<Rightarrow> fault option \<times> fsys" where
  "next_fault w = (plan w (calls w), w\<lparr>calls := Suc (calls w)\<rparr>)"

definition ENOENT :: "string \<Rightarrow> string \<Rightarrow> error" where
  "ENOENT syscall p =
     SystemError ''ENOENT''
       (''ENOENT: no such file or directory, '' @ syscall @ '' '' @ [CHR 0x27] @ p @ [CHR 0x27])"

definition fs_mkdir :: "string \<Rightarrow> fsys \<Rightarrow> (error + unit) \<times> fsys" where
  "fs_mkdir dir w =
     (case next_fault w of
        (Some (Fault c m partial), w1) \<Rightarrow> (Inl (SystemError c m), w1)
      | (None, w1) \<Rightarrow> (Inr (), w1))"

definition fs_access :: "string \<Rightarrow> fsys \<Rightarrow> (error + unit) \<times> fsys" where
  "fs_access p w =
     (case next_fault w of
        (Some (Fault c m partial), w1) \<Rightarrow> (Inl (SystemError c m), w1)
      | (None, w1) \<Rightarrow>
          (if files w1 p = None then (Inl (ENOENT ''access'' p), w1) else (Inr (), w1)))"

definition fs_readFile :: "string \<Rightarrow> fsys \<Rightarrow> (error + content) \<times> fsys" where
  "fs_readFile p w =
     (case next_fault w of
        (Some (Fault c m partial), w1) \<Rightarrow> (Inl (SystemError c m), w1)
      | (None, w1) \<Rightarrow>
          (case files w1 p of
             None \<Rightarrow> (Inl (ENOENT ''open'' p), w1)
           | Some c \<Rightarrow> (Inr c, w1)))"

definition fs_writeFile :: "string \<Rightarrow> content \<Rightarrow> fsys \<Rightarrow> (error + unit) \<times> fsys" where
  "fs_writeFile p c w =
     (case next_fault w of
        (Some (Fault cd m partial), w1) \<Rightarrow>
          (Inl (SystemError cd m),
           if partial then w1\<lparr>files := (files w1)(p \<mapsto> Malformed)\<rparr> else w1)
      | (None, w1) \<Rightarrow> (Inr (), w1\<lparr>files := (files w1)(p \<mapsto> c)\<rparr>))"

definition fs_rename :: "string \<Rightarrow> string \<Rightarrow> fsys \<Rightarrow> (error + unit) \<times> fsys" where
  "fs_rename a b w =
     (case next_fault w of
        (Some (Fault c m partial), w1) \<Rightarrow> (Inl (SystemError c m), w1)
      | (None, w1) \<Rightarrow>
          (case files w1 a of
             None \<Rightarrow> (Inl (ENOENT ''rename'' a), w1)
           | Some c \<Rightarrow> (Inr (), w1\<lparr>files := ((files w1)(a := None))(b \<mapsto> c)\<rparr>)))"

definition fs_unlink :: "string \<Rightarrow> fsys \<Rightarrow> (error + unit) \<times> fsys" where
  "fs_unlink p w =
     (case next_fault w of
        (Some (Fault c m partial), w1) \<Rightarrow> (Inl (SystemError c m), w1)
      | (None, w1) \<Rightarrow>
          (if files w1 p = None then (Inl (ENOENT ''unlink'' p), w1)
           else (Inr (), w1\<lparr>files := (files w1)(p := None)\<rparr>)))"

text \<open>
  \<^verbatim>\<open>JSON.stringify\<close> as a map from values to documents: \<open>None\<close> is the result
  \<^verbatim>\<open>undefined\<close>; a date becomes its ISO text, or \<^verbatim>\<open>null\<close> when invalid; \<open>-0\<close> is
  written as \<open>0\<close>, \<^verbatim>\<open>NaN\<close> and the infinities as \<^verbatim>\<open>null\<close>; an \<^verbatim>\<open>undefined\<close>
  array element becomes \<^verbatim>\<open>null\<close> and an \<^verbatim>\<open>undefined\<close> property is dropped.
\<close>

fun JSON_stringify :: "platform \<Rightarrow> jsval \<Rightarrow> jsval option"
  and stringify_elems :: "platform \<Rightarrow> jsval list \<Rightarrow> jsval list"
  and stringify_props :: "platform \<Rightarrow> (jsstring \<times> jsval) list \<Rightarrow> (jsstring \<times> jsval) list"
where
  "JSON_stringify P JUndefined = None"
| "JSON_stringify P JNull = Some JNull"
| "JSON_stringify P (JBool b) = Some (JBool b)"
| "JSON_stringify P (JNum (Finite n)) = Some (JNum (Finite n))"
| "JSON_stringify P (JNum NegZero) = Some (JNum (Finite 0))"
| "JSON_stringify P (JNum NaN) = Some JNull"
| "JSON_stringify P (JNum PosInfinity) = Some JNull"
| "JSON_stringify P (JNum NegInfinity) = Some JNull"
| "JSON_stringify P (JStr s) = Some (JStr s)"
| "JSON_stringify P (JDate d) =
     Some (case d of None \<Rightarrow> JNull | Some t \<Rightarrow> JStr (toISOString P t))"
| "JSON_stringify P (JArr xs) = Some (JArr (stringify_elems P xs))"
| "JSON_stringify P (JObj kvs) = Some (JObj (stringify_props P kvs))"
| "stringify_elems P [] = []"
| "stringify_elems P (x # xs) =
     (case JSON_stringify P x of None \<Rightarrow> JNull | Some y \<Rightarrow> y) # stringify_elems P xs"
| "stringify_props P [] = []"
| "stringify_props P ((k, v) # kvs) =
     (case JSON_stringify P v of None \<Rightarrow> [] | Some y \<Rightarrow> [(k, y)]) @ stringify_props P kvs"

fun JSON_parse :: "content \<Rightarrow> error + jsval" where
  "JSON_parse (Json v) = Inr v"
| "JSON_parse Malformed = Inl (SyntaxError ''Unexpected token in JSON'')"

fun isArray :: "jsval \<Rightarrow> bool" where
  "isArray (JArr xs) = True"
| "isArray v = False"

fun is_SyntaxError :: "error \<Rightarrow> bool" where
  "is_SyntaxError (SyntaxError m) = True"
| "is_SyntaxError e = False"

text \<open>
  The file-backed store.  \<open>dataDir\<close> is \<^verbatim>\<open>path.dirname(filePath)\<close>, computed by the
  platform when the store is constructed.
\<close>

record StorageService =
  filePath :: string
  dataDir :: string

definition StorageService_saveTodos ::
  "platform \<Rightarrow> StorageService \<Rightarrow> jsval \<Rightarrow> fsys \<Rightarrow> (error + unit) \<times> fsys" where
  "StorageService_saveTodos P this todos w =
     (if \<not> isArray todos then (Inl (Error ''Todos must be an array''), w)
      else case fs_mkdir (dataDir this) w of
        (Inl err, w1) \<Rightarrow> (Inl err, w1)
      | (Inr u, w1) \<Rightarrow>
          (let tempFilePath = filePath this @ ''.tmp'' in
           case (case JSON_stringify P todos of
                   None \<Rightarrow> (Inl (TypeError ''The data argument must be of type string''), w1)
                 | Some doc \<Rightarrow>
                     (case fs_writeFile tempFilePath (Json doc) w1 of
                        (Inl err, w2) \<Rightarrow> (Inl err, w2)
                      | (Inr u, w2) \<Rightarrow> fs_rename tempFilePath (filePath this) w2)) of
             (Inr u, w3) \<Rightarrow> (Inr (), w3)
           | (Inl err, w3) \<Rightarrow>
               (let w4 = snd (fs_unlink tempFilePath w3)
                in (Inl (Error (''Failed to save todos: '' @ message err)), w4))))"

definition StorageService_initializeStorage ::
  "platform \<Rightarrow> StorageService \<Rightarrow> fsys \<Rightarrow> (error + unit) \<times> fsys" where
  "StorageService_initializeStorage P this w =
     (case (case fs_mkdir (dataDir this) w of
              (Inl err, w1) \<Rightarrow> (Inl err, w1)
            | (Inr u, w1) \<Rightarrow>
                (case fs_access (filePath this) w1 of
                   (Inr u, w2) \<Rightarrow> (Inr (), w2)
                 | (Inl err, w2) \<Rightarrow>
                     (if code err = Some ''ENOENT''
                      then StorageService_saveTodos P this (JArr []) w2
                      else (Inl err, w2)))) of
        (Inr u, w3) \<Rightarrow> (Inr (), w3)
      | (Inl err, w3) \<Rightarrow>
          (Inl (Error (''Failed to initialize storage: '' @ message err)), w3))"

definition StorageService_loadTodos ::
  "platform \<Rightarrow> StorageService \<Rightarrow> fsys \<Rightarrow> (error + jsval) \<times> fsys" where
  "StorageService_loadTodos P this w =
     (case (case fs_readFile (filePath this) w of
              (Inl err, w1) \<Rightarrow> (Inl err, w1)
            | (Inr data, w1) \<Rightarrow> (JSON_parse data, w1)) of
        (Inr v, w2) \<Rightarrow> (Inr v, w2)
      | (Inl err, w2) \<Rightarrow>
          (if code err = Some ''ENOENT'' then
             (case StorageService_initializeStorage P this w2 of
                (Inl err2, w3) \<Rightarrow> (Inl err2, w3)
              | (Inr u, w3) \<Rightarrow> (Inr (JArr []), w3))
           else if is_SyntaxError err
             then (Inl (Error ''Invalid JSON format in storage file''), w2)
           else (Inl (Error (''Failed to load todos: '' @ message err)), w2)))"

definition storageService :: "platform \<Rightarrow> StorageService \<Rightarrow> fsys store" where
  "storageService P this =
     \<lparr>loadTodos = StorageService_loadTodos P this,
      saveTodos = StorageService_saveTodos P this\<rparr>"

section \<open>The Todo service (services/todoService.js)\<close>

text \<open>
  The service state is the state of the injected store together with the environment.
  \<open>fromJSON_map\<close> is \<^verbatim>\<open>todosData.map(data => Todo.fromJSON(data))\<close>: the first element
  that raises ends the traversal.
\<close>

fun fromJSON_map :: "platform \<Rightarrow> jsval list \<Rightarrow> env \<Rightarrow> (error + Todo list) \<times> env" where
  "fromJSON_map P [] e = (Inr [], e)"
| "fromJSON_map P (d # ds) e =
     (case fromJSON P d e of
        (Inl err, e1) \<Rightarrow> (Inl err, e1)
      | (Inr todo, e1) \<Rightarrow>
          (case fromJSON_map P ds e1 of
             (Inl err, e2) \<Rightarrow> (Inl err, e2)
           | (Inr todos, e2) \<Rightarrow> (Inr (todo # todos), e2)))"

text \<open>The message of the \<^verbatim>\<open>TypeError\<close> raised by \<^verbatim>\<open>todosData.map\<close> on a non-array (V8).\<close>

fun map_TypeError :: "jsval \<Rightarrow> error" where
  "map_TypeError JUndefined =
     TypeError ''Cannot read properties of undefined (reading 'map')''"
| "map_TypeError JNull = TypeError ''Cannot read properties of null (reading 'map')''"
| "map_TypeError v = TypeError ''todosData.map is not a function''"

definition getAllTodos ::
  "platform \<Rightarrow> 's store \<Rightarrow> 's \<times> env \<Rightarrow> (error + Todo list) \<times> ('s \<times> env)" where
  "getAllTodos P S st =
     (case loadTodos S (fst st) of
        (Inl err, s1) \<Rightarrow>
          (Inl (Error (''Failed to retrieve todos: '' @ message err)), (s1, snd st))
      | (Inr todosData, s1) \<Rightarrow>
          (case todosData of
             JArr ds \<Rightarrow>
               (case fromJSON_map P ds (snd st) of
                  (Inl err, e1) \<Rightarrow>
                    (Inl (Error (''Failed to retrieve todos: '' @ message err)), (s1, e1))
                | (Inr todos, e1) \<Rightarrow> (Inr todos, (s1, e1)))
           | _ \<Rightarrow>
               (Inl (Error (''Failed to retrieve todos: '' @ message (map_TypeError todosData))),
                (s1, snd st))))"

definition createTodo ::
  "platform \<Rightarrow> 's store \<Rightarrow> jsval \<Rightarrow> 's \<times> env \<Rightarrow> (error + Todo) \<times> ('s \<times> env)" where
  "createTodo P S descr st =
     (case new_Todo descr JNull (snd st) of
        (Inl err, e1) \<Rightarrow>
          (Inl (Error (''Failed to create todo: '' @ message err)), (fst st, e1))
      | (Inr todo, e1) \<Rightarrow>
          (case getAllTodos P S (fst st, e1) of
             (Inl err, st1) \<Rightarrow>
               (Inl (Error (''Failed to create todo: '' @ message err)), st1)
           | (Inr todos, st1) \<Rightarrow>
               (case saveTodos S (JArr (map toJSON (todos @ [todo]))) (fst st1) of
                  (Inl err, s2) \<Rightarrow>
                    (Inl (Error (''Failed to create todo: '' @ message err)), (s2, snd st1))
                | (Inr u, s2) \<Rightarrow> (Inr todo, (s2, snd st1)))))"

text \<open>\<^verbatim>\<open>Array.prototype.findIndex\<close>; \<open>None\<close> is the result \<open>-1\<close>.\<close>

fun findIndex :: "('a \<Rightarrow> bool) \<Rightarrow> 'a list \<Rightarrow> nat option" where
  "findIndex p [] = None"
| "findIndex p (x # xs) = (if p x then Some 0 else map_option Suc (findIndex p xs))"

definition updateTodo ::
  "platform \<Rightarrow> 's store \<Rightarrow> jsval \<Rightarrow> jsval \<Rightarrow> 's \<times> env \<Rightarrow> (error + Todo) \<times> ('s \<times> env)"
where
  "updateTodo P S ident updates st =
     (if \<not> truthy ident \<or> typeof ident \<noteq> ''string''
        then (Inl (Error ''Valid todo ID is required''), st)
      else if \<not> truthy updates \<or> typeof updates \<noteq> ''object''
        then (Inl (Error ''Updates object is required''), st)
      else case getAllTodos P S st of
        (Inl err, st1) \<Rightarrow> (Inl err, st1)
      | (Inr todos, st1) \<Rightarrow>
          (case findIndex (\<lambda>todo. todo_id todo = ident) todos of
             None \<Rightarrow> (Inl (Error ''Todo not found''), st1)
           | Some todoIndex \<Rightarrow>
               (let todo = todos ! todoIndex in
                case (if getprop updates (js ''description'') \<noteq> JUndefined
                      then updateDescription (getprop updates (js ''description'')) todo (snd st1)
                      else (Inr todo, snd st1)) of
                  (Inl err, e2) \<Rightarrow> (Inl err, (fst st1, e2))
                | (Inr todo1, e2) \<Rightarrow>
                    (case (if getprop updates (js ''completed'') \<noteq> JUndefined
                           then setCompleted (getprop updates (js ''completed'')) todo1 e2
                           else (Inr todo1, e2)) of
                       (Inl err, e3) \<Rightarrow> (Inl err, (fst st1, e3))
                     | (Inr todo2, e3) \<Rightarrow>
                         (case saveTodos S (JArr (map toJSON (todos[todoIndex := todo2])))
                                 (fst st1) of
                            (Inl err, s2) \<Rightarrow> (Inl err, (s2, e3))
                          | (Inr u, s2) \<Rightarrow> (Inr todo2, (s2, e3)))))))"

definition toggleComplete ::
  "platform \<Rightarrow> 's store \<Rightarrow> jsval \<Rightarrow> 's \<times> env \<Rightarrow> (error + Todo) \<times> ('s \<times> env)" where
  "toggleComplete P S ident st =
     (if \<not> truthy ident \<or> typeof ident \<noteq> ''string''
        then (Inl (Error ''Valid todo ID is required''), st)
      else case getAllTodos P S st of
        (Inl err, st1) \<Rightarrow> (Inl err, st1)
      | (Inr todos, st1) \<Rightarrow>
          (case findIndex (\<lambda>todo. todo_id todo = ident) todos of
             None \<Rightarrow> (Inl (Error ''Todo not found''), st1)
           | Some todoIndex \<Rightarrow>
               (let (todo, e2) = toggleComplete_todo (todos ! todoIndex) (snd st1) in
                case saveTodos S (JArr (map toJSON (todos[todoIndex := todo]))) (fst st1) of
                  (Inl err, s2) \<Rightarrow> (Inl err, (s2, e2))
                | (Inr u, s2) \<Rightarrow> (Inr todo, (s2, e2)))))"

definition deleteTodo ::
  "platform \<Rightarrow> 's store \<Rightarrow> jsval \<Rightarrow> 's \<times> env \<Rightarrow> (error + bool) \<times> ('s \<times> env)" where
  "deleteTodo P S ident st =
     (if \<not> truthy ident \<or> typeof ident \<noteq> ''string''
        then (Inl (Error ''Valid todo ID is required''), st)
      else case getAllTodos P S st of
        (Inl err, st1) \<Rightarrow> (Inl err, st1)
      | (Inr todos, st1) \<Rightarrow>
          (case findIndex (\<lambda>todo. todo_id todo = ident) todos of
             None \<Rightarrow> (Inl (Error ''Todo not found''), st1)
           | Some todoIndex \<Rightarrow>
               (case saveTodos S
                       (JArr (map toJSON (take todoIndex todos @ drop (Suc todoIndex) todos)))
                       (fst st1) of
                  (Inl err, s2) \<Rightarrow> (Inl err, (s2, snd st1))
                | (Inr u, s2) \<Rightarrow> (Inr True, (s2, snd st1)))))"

section \<open>Stored collections\<close>

text \<open>
  The values that \<^verbatim>\<open>JSON.stringify\<close> writes as they are: they contain no
  \<^verbatim>\<open>undefined\<close>, no date object, and no number other than the finite ones apart from
  \<open>-0\<close>.
\<close>

fun json_value :: "jsval \<Rightarrow> bool"
  and json_elems :: "jsval list \<Rightarrow> bool"
  and json_props :: "(jsstring \<times> jsval) list \<Rightarrow> bool"
where
  "json_value JUndefined = False"
| "json_value JNull = True"
| "json_value (JBool b) = True"
| "json_value (JNum (Finite n)) = True"
| "json_value (JNum NegZero) = False"
| "json_value (JNum NaN) = False"
| "json_value (JNum PosInfinity) = False"
| "json_value (JNum NegInfinity) = False"
| "json_value (JStr s) = True"
| "json_value (JDate d) = False"
| "json_value (JArr xs) = json_elems xs"
| "json_value (JObj kvs) = json_props kvs"
| "json_elems [] = True"
| "json_elems (x # xs) = (json_value x \<and> json_elems xs)"
| "json_props [] = True"
| "json_props ((k, v) # kvs) = (json_value v \<and> json_props kvs)"

text \<open>
  The records the service itself writes (the persisted layout): the five fields in the order
  of \<open>toJSON\<close>, a non-empty string id, a description that validation returns unchanged, a
  boolean flag, and two timestamps in the text form the platform prints for the instant it
  reads from them.
\<close>

definition stored_timestamp :: "platform \<Rightarrow> jsval \<Rightarrow> bool" where
  "stored_timestamp P v \<longleftrightarrow>
     truthy v \<and> (case Date_of P v of None \<Rightarrow> False | Some t \<Rightarrow> v = JStr (toISOString P t))"

definition stored_record :: "platform \<Rightarrow> jsval \<Rightarrow> bool" where
  "stored_record P doc \<longleftrightarrow>
     (case doc of
        JObj kvs \<Rightarrow>
          map fst kvs = [js ''id'', js ''description'', js ''completed'', js ''createdAt'',
                         js ''updatedAt'']
          \<and> truthy (getprop doc (js ''id'')) \<and> typeof (getprop doc (js ''id'')) = ''string''
          \<and> (case getprop doc (js ''description'') of
                JStr d \<Rightarrow> validateDescription (JStr d) = Inr d
              | _ \<Rightarrow> False)
          \<and> typeof (getprop doc (js ''completed'')) = ''boolean''
          \<and> stored_timestamp P (getprop doc (js ''createdAt''))
          \<and> stored_timestamp P (getprop doc (js ''updatedAt''))
      | _ \<Rightarrow> False)"

text \<open>The \<open>Todo\<close> object that \<open>fromJSON\<close> builds from a stored record.\<close>

definition decode :: "platform \<Rightarrow> jsval \<Rightarrow> Todo" where
  "decode P doc =
     \<lparr>todo_id = getprop doc (js ''id''),
      description = (case getprop doc (js ''description'') of JStr d \<Rightarrow> d | _ \<Rightarrow> []),
      completed = (getprop doc (js ''completed'') = JBool True),
      createdAt = Date_of P (getprop doc (js ''createdAt'')),
      updatedAt = Date_of P (getprop doc (js ''updatedAt''))\<rparr>"

section \<open>Example data\<close>

text \<open>
  A platform for closed examples.  Its date functions agree with ECMAScript on the two
  instants the examples use, 2024-01-01T12:00:00.000Z and 2024-01-01T12:01:00.000Z.
\<close>

definition example_platform :: platform where
  "example_platform =
     \<lparr>Date_of = (\<lambda>v. if v = JStr (js ''2024-01-01T12:00:00.000Z'') then Some 1704110400000
                     else if v = JStr (js ''2024-01-01T12:01:00.000Z'') then Some 1704110460000
                     else None),
      toISOString = (\<lambda>t. if t = 1704110400000 then js ''2024-01-01T12:00:00.000Z''
                         else js ''2024-01-01T12:01:00.000Z'')\<rparr>"

definition example_env :: env where
  "example_env =
     \<lparr>clock = (\<lambda>n. 1704110460000), ticks = 0,
      uuids = (\<lambda>n. js ''a1b2c3d4-0000-4000-8000-000000000000''), drawn = 0\<rparr>"

definition example_record :: "string \<Rightarrow> string \<Rightarrow> bool \<Rightarrow> jsval" where
  "example_record i d c =
     JObj [(js ''id'', JStr (js i)),
           (js ''description'', JStr (js d)),
           (js ''completed'', JBool c),
           (js ''createdAt'', JStr (js ''2024-01-01T12:00:00.000Z'')),
           (js ''updatedAt'', JStr (js ''2024-01-01T12:00:00.000Z''))]"

definition example_store :: StorageService where
  "example_store = \<lparr>filePath = ''data/todos.json'', dataDir = ''data''\<rparr>"

definition example_fs :: "jsval \<Rightarrow> (nat \<Rightarrow> fault option) \<Rightarrow> fsys" where
  "example_fs doc p = \<lparr>files = [''data/todos.json'' \<mapsto> Json doc], plan = p, calls = 0\<rparr>"

definition no_faults :: "nat \<Rightarrow> fault option" where
  "no_faults n = None"

definition example_docs :: jsval where
  "example_docs =
     JArr [example_record ''todo-1'' ''Buy milk'' False, example_record ''todo-2'' ''Walk dog'' True]"

definition example_todo :: "string \<Rightarrow> string \<Rightarrow> bool \<Rightarrow> Todo" where
  "example_todo i d c =
     \<lparr>todo_id = JStr (js i), description = js d, completed = c,
      createdAt = Some 1704110400000, updatedAt = Some 1704110400000\<rparr>"

definition read_denied :: "nat \<Rightarrow> fault option" where
  "read_denied = [0 \<mapsto> Fault ''EACCES'' ''EACCES: permission denied'' False]"

definition rename_refused :: "nat \<Rightarrow> nat \<Rightarrow> fault option" where
  "rename_refused n = [n \<mapsto> Fault ''EBUSY'' ''EBUSY: resource busy or locked'' False]"

definition write_interrupted :: "nat \<Rightarrow> nat \<Rightarrow> fault option" where
  "write_interrupted n = [n \<mapsto> Fault ''ENOSPC'' ''ENOSPC: no space left on device'' True]"

definition cleanup_refused :: "nat \<Rightarrow> fault option" where
  "cleanup_refused =
     [2 \<mapsto> Fault ''EROFS'' ''EROFS: read-only file system'' False,
      3 \<mapsto> Fault ''EROFS'' ''EROFS: read-only file system'' False]"

definition empty_fs :: "(nat \<Rightarrow> fault option) \<Rightarrow> fsys" where
  "empty_fs p = \<lparr>files = Map.empty, plan = p, calls = 0\<rparr>"

section \<open>Description validation\<close>

lemma rev_dropWhile_rev_prefix: "\<exists>zs. xs = rev (dropWhile P (rev xs)) @ zs"
proof -
  have "rev (rev xs) = rev (takeWhile P (rev xs) @ dropWhile P (rev xs))"
    by (simp only: takeWhile_dropWhile_id)
  then have "xs = rev (dropWhile P (rev xs)) @ rev (takeWhile P (rev xs))"
    by (simp only: rev_rev_ident rev_append)
  then show ?thesis by blast
qed

lemma dropWhile_trim: "dropWhile isWhiteSpace (trim s) = trim s"
proof (cases "trim s")
  case Nil
  then show ?thesis by simp
next
  case (Cons c cs)
  let ?d = "dropWhile isWhiteSpace s"
  obtain zs where zs: "?d = trim s @ zs"
    unfolding trim_def using rev_dropWhile_rev_prefix by blast
  then have "?d = c # cs @ zs" using Cons by simp
  then have "\<not> isWhiteSpace c"
    by (metis hd_dropWhile list.sel(1) list.distinct(1))
  then show ?thesis using Cons by simp
qed

lemma trim_idem: "trim (trim s) = trim s"
proof -
  have "rev (trim s) = dropWhile isWhiteSpace (rev (dropWhile isWhiteSpace s))"
    by (simp add: trim_def)
  then have "dropWhile isWhiteSpace (rev (trim s)) = rev (trim s)"
    by (simp add: dropWhile_idem)
  then have "trim (trim s) = rev (rev (trim s))"
    unfolding trim_def [of "trim s"] dropWhile_trim by simp
  then show ?thesis by simp
qed

lemma trim_whitespace_only:
  assumes "\<forall>c \<in> set s. isWhiteSpace c"
  shows "trim s = []"
proof -
  have d: "dropWhile isWhiteSpace s = []"
    using assms by (simp add: dropWhile_eq_Nil_conv)
  show ?thesis by (simp only: trim_def d dropWhile.simps rev.simps append_Nil)
qed

lemma trim_replicate: "\<not> isWhiteSpace c \<Longrightarrow> trim (replicate n c) = replicate n c"
  by (cases n) (simp_all add: trim_def replicate_append_same)

text \<open>
  Claim C3.  \<open>validateDescription\<close> accepts exactly the strings whose trimmed length lies
  between 1 and 500 and returns the trimmed text.  It rejects every value that is not a
  string (``Description must be a string''), every string that is empty or consists of
  whitespace only (``Description cannot be empty'') and every string whose trimmed length
  exceeds 500 (``Description cannot exceed 500 characters'').  In particular a description of
  500 code units without surrounding whitespace is accepted and one of 501 is rejected.
\<close>

theorem validateDescription_boundary:
  "(1 \<le> length (trim s) \<and> length (trim s) \<le> 500 \<longrightarrow>
      validateDescription (JStr s) = Inr (trim s))
   \<and> ((\<forall>t. v \<noteq> JStr t) \<longrightarrow>
      validateDescription v = Inl (Error ''Description must be a string''))
   \<and> (trim s = [] \<longrightarrow>
      validateDescription (JStr s) = Inl (Error ''Description cannot be empty''))
   \<and> ((\<forall>c \<in> set s. isWhiteSpace c) \<longrightarrow>
      validateDescription (JStr s) = Inl (Error ''Description cannot be empty''))
   \<and> (500 < length (trim s) \<longrightarrow>
      validateDescription (JStr s) = Inl (Error ''Description cannot exceed 500 characters''))
   \<and> (trim s = s \<and> length s = 500 \<longrightarrow> validateDescription (JStr s) = Inr s)
   \<and> (trim s = s \<and> length s = 501 \<longrightarrow>
      validateDescription (JStr s) = Inl (Error ''Description cannot exceed 500 characters''))
   \<and> (\<forall>d. validateDescription v = Inr d \<longrightarrow>
        (\<exists>t. v = JStr t \<and> d = trim t \<and> 1 \<le> length d \<and> length d \<le> 500))"
proof -
  have a: "(\<forall>t. v \<noteq> JStr t) \<longrightarrow>
      validateDescription v = Inl (Error ''Description must be a string'')"
    by (cases v) simp_all
  have b: "(\<forall>c \<in> set s. isWhiteSpace c) \<longrightarrow>
      validateDescription (JStr s) = Inl (Error ''Description cannot be empty'')"
    by (simp add: trim_whitespace_only)
  have c: "\<forall>d. validateDescription v = Inr d \<longrightarrow>
        (\<exists>t. v = JStr t \<and> d = trim t \<and> 1 \<le> length d \<and> length d \<le> 500)"
    by (cases v) (auto simp: Let_def Suc_le_eq split: if_splits)
  have d: "trim s = s \<and> length s = 500 \<longrightarrow> validateDescription (JStr s) = Inr s"
    by (auto simp: Let_def)
  have e: "trim s = s \<and> length s = 501 \<longrightarrow>
      validateDescription (JStr s) = Inl (Error ''Description cannot exceed 500 characters'')"
    by (auto simp: Let_def)
  show ?thesis using a b c d e by (simp add: Let_def)
qed

theorem validateDescription_boundary_witness:
  "validateDescription (JStr (js ''  Buy milk '')) = Inr (js ''Buy milk'')
   \<and> validateDescription (JNum (Finite 5)) = Inl (Error ''Description must be a string'')
   \<and> validateDescription (JStr []) = Inl (Error ''Description cannot be empty'')
   \<and> validateDescription (JStr (js ''   '')) = Inl (Error ''Description cannot be empty'')
   \<and> validateDescription (JStr (replicate 500 0x61)) = Inr (replicate 500 0x61)
   \<and> validateDescription (JStr (replicate 501 0x61)) =
       Inl (Error ''Description cannot exceed 500 characters'')"
proof -
  have ws: "\<not> isWhiteSpace 0x61" "isWhiteSpace 0x20"
    by (simp_all add: isWhiteSpace_def)
  have t1: "trim (js ''  Buy milk '') = js ''Buy milk''"
    by (simp add: js_def trim_def isWhiteSpace_def)
  have l1: "1 \<le> length (trim (js ''  Buy milk '')) \<and> length (trim (js ''  Buy milk '')) \<le> 500"
    unfolding t1 by (simp add: js_def)
  have t2: "\<forall>c \<in> set (js ''   ''). isWhiteSpace c"
    by (simp add: js_def ws)
  have t3: "trim (replicate 500 0x61) = replicate 500 0x61 \<and> length (replicate 500 (0x61::jschar)) = 500"
    using trim_replicate [OF ws(1)] by simp
  have t4: "trim (replicate 501 0x61) = replicate 501 0x61 \<and> length (replicate 501 (0x61::jschar)) = 501"
    using trim_replicate [OF ws(1)] by simp
  have n: "\<forall>t. JNum (Finite 5) \<noteq> JStr t" by simp
  have e: "trim [] = ([]::jsstring)" by (simp add: trim_def)
  have c1: "validateDescription (JStr (js ''  Buy milk '')) = Inr (js ''Buy milk'')"
    using validateDescription_boundary [of "js ''  Buy milk ''" "JNum (Finite 5)"] l1 t1 by (simp only:)
  have c2: "validateDescription (JNum (Finite 5)) = Inl (Error ''Description must be a string'')"
    using validateDescription_boundary [of "js ''  Buy milk ''" "JNum (Finite 5)"] n by blast
  have c3: "validateDescription (JStr []) = Inl (Error ''Description cannot be empty'')"
    using validateDescription_boundary [of "[]" "JNum (Finite 5)"] e by blast
  have c4: "validateDescription (JStr (js ''   '')) = Inl (Error ''Description cannot be empty'')"
    using validateDescription_boundary [of "js ''   ''" "JNum (Finite 5)"] t2 by blast
  have c5: "validateDescription (JStr (replicate 500 0x61)) = Inr (replicate 500 0x61)"
    using validateDescription_boundary [of "replicate 500 0x61" "JNum (Finite 5)"] t3 by blast
  have c6: "validateDescription (JStr (replicate 501 0x61)) =
       Inl (Error ''Description cannot exceed 500 characters'')"
    using validateDescription_boundary [of "replicate 501 0x61" "JNum (Finite 5)"] t4 by blast
  show ?thesis using c1 c2 c3 c4 c5 c6 by blast
qed

section \<open>Strings and property names\<close>

lemma unat_of_char: "unat (of_char c :: 16 word) = (of_char c :: nat)"
proof -
  have "(of_char c :: nat) < 256" by simp
  also have "(256::nat) < 2 ^ LENGTH(16)" by simp
  finally have "(of_char c :: nat) < 2 ^ LENGTH(16)" .
  then have "unat (of_nat (of_char c) :: 16 word) = of_char c"
    by (rule of_nat_inverse [OF refl])
  then show ?thesis by (simp only: of_nat_of_char)
qed

lemma of_char_word_eq_iff [simp]: "(of_char c :: 16 word) = of_char d \<longleftrightarrow> c = d"
proof
  assume "(of_char c :: 16 word) = of_char d"
  then have "unat (of_char c :: 16 word) = unat (of_char d :: 16 word)" by simp
  then have "(of_char c :: nat) = of_char d" by (simp only: unat_of_char)
  then show "c = d" by simp
qed simp

lemma js_eq_iff [simp]: "js a = js b \<longleftrightarrow> a = b"
  unfolding js_def by (induction a arbitrary: b) (auto simp: map_eq_Cons_conv Cons_eq_map_conv)

lemma js_Nil [simp]: "js s = [] \<longleftrightarrow> s = []" "[] = js s \<longleftrightarrow> s = []"
  by (auto simp: js_def)

lemma length_js [simp]: "length (js s) = length s"
  by (simp add: js_def)

section \<open>Decoding and encoding stored records\<close>

lemma stringify_json:
  "json_value v \<Longrightarrow> JSON_stringify P v = Some v"
  "json_elems xs \<Longrightarrow> stringify_elems P xs = xs"
  "json_props kvs \<Longrightarrow> stringify_props P kvs = kvs"
  by (induction P v and P xs and P kvs rule: JSON_stringify_stringify_elems_stringify_props.induct)
     simp_all

lemma stored_recordE:
  assumes "stored_record P doc"
  obtains i d c ca ua tc tu where
    "doc = JObj [(js ''id'', JStr i), (js ''description'', JStr d), (js ''completed'', JBool c),
                 (js ''createdAt'', JStr ca), (js ''updatedAt'', JStr ua)]"
    "i \<noteq> []" "validateDescription (JStr d) = Inr d" "ca \<noteq> []" "ua \<noteq> []"
    "Date_of P (JStr ca) = Some tc" "toISOString P tc = ca"
    "Date_of P (JStr ua) = Some tu" "toISOString P tu = ua"
proof -
  from assms obtain kvs where doc: "doc = JObj kvs"
    by (cases doc) (simp_all add: stored_record_def)
  from assms doc have keys: "map fst kvs = [js ''id'', js ''description'', js ''completed'',
      js ''createdAt'', js ''updatedAt'']"
    by (simp add: stored_record_def)
  then obtain v1 v2 v3 v4 v5 where kvs: "kvs = [(js ''id'', v1), (js ''description'', v2),
      (js ''completed'', v3), (js ''createdAt'', v4), (js ''updatedAt'', v5)]"
    by (auto simp: map_eq_Cons_conv)
  from assms doc kvs obtain i where v1: "v1 = JStr i" "i \<noteq> []"
    by (cases v1) (simp_all add: stored_record_def)
  from assms doc kvs obtain d where v2: "v2 = JStr d" "validateDescription (JStr d) = Inr d"
    by (cases v2) (simp_all add: stored_record_def)
  from assms doc kvs obtain c where v3: "v3 = JBool c"
    by (cases v3) (simp_all add: stored_record_def)
  from assms doc kvs have t4: "stored_timestamp P v4" and t5: "stored_timestamp P v5"
    by (simp_all add: stored_record_def)
  from t4 obtain tc where v4: "Date_of P v4 = Some tc" "v4 = JStr (toISOString P tc)"
      "toISOString P tc \<noteq> []"
    by (auto simp: stored_timestamp_def split: option.splits)
  from t5 obtain tu where v5: "Date_of P v5 = Some tu" "v5 = JStr (toISOString P tu)"
      "toISOString P tu \<noteq> []"
    by (auto simp: stored_timestamp_def split: option.splits)
  show ?thesis
    using that [of i d c "toISOString P tc" "toISOString P tu" tc tu] doc kvs v1 v2 v3 v4 v5
    by simp
qed

lemma fromJSON_stored:
  assumes "stored_record P doc"
  shows "fromJSON P doc e = (Inr (decode P doc), e\<lparr>ticks := Suc (Suc (ticks e))\<rparr>)"
proof -
  from assms obtain i d c ca ua tc tu where
    doc: "doc = JObj [(js ''id'', JStr i), (js ''description'', JStr d), (js ''completed'', JBool c),
                 (js ''createdAt'', JStr ca), (js ''updatedAt'', JStr ua)]"
    and f: "i \<noteq> []" "validateDescription (JStr d) = Inr d" "ca \<noteq> []" "ua \<noteq> []"
    by (rule stored_recordE)
  show ?thesis
    unfolding doc fromJSON_def new_Todo_def decode_def new_Date_def
    using f by (simp del: validateDescription.simps)
qed

lemma stringify_decode:
  assumes "stored_record P doc"
  shows "JSON_stringify P (toJSON (decode P doc)) = Some doc"
proof -
  from assms obtain i d c ca ua tc tu where
    doc: "doc = JObj [(js ''id'', JStr i), (js ''description'', JStr d), (js ''completed'', JBool c),
                 (js ''createdAt'', JStr ca), (js ''updatedAt'', JStr ua)]"
    and f: "Date_of P (JStr ca) = Some tc" "toISOString P tc = ca"
           "Date_of P (JStr ua) = Some tu" "toISOString P tu = ua"
    by (rule stored_recordE)
  show ?thesis
    unfolding doc toJSON_def decode_def using f by simp
qed

lemma fromJSON_map_stored:
  "list_all (stored_record P) docs \<Longrightarrow>
     fromJSON_map P docs e = (Inr (map (decode P) docs), e\<lparr>ticks := ticks e + 2 * length docs\<rparr>)"
proof (induction docs arbitrary: e)
  case Nil
  then show ?case by simp
next
  case (Cons doc docs)
  then show ?case by (simp add: fromJSON_stored)
qed

lemma stringify_elems_decode:
  "list_all (stored_record P) docs \<Longrightarrow>
     stringify_elems P (map toJSON (map (decode P) docs)) = docs"
  by (induction docs) (simp_all add: stringify_decode)

section \<open>Evaluation of closed examples\<close>

lemmas service_defs =
  getAllTodos_def createTodo_def updateTodo_def toggleComplete_def deleteTodo_def
  fromJSON_def new_Todo_def new_Date_def uuidv4_def toJSON_def updateDescription_def
  setCompleted_def toggleComplete_todo_def Let_def

lemmas storage_defs =
  storageService_def StorageService_loadTodos_def StorageService_saveTodos_def
  StorageService_initializeStorage_def fs_mkdir_def fs_access_def fs_readFile_def
  fs_writeFile_def fs_rename_def fs_unlink_def next_fault_def ENOENT_def

lemmas example_defs =
  example_platform_def example_env_def example_record_def example_store_def example_fs_def
  no_faults_def

lemma trim_Buy_milk [simp]: "trim (js ''Buy milk'') = js ''Buy milk''"
  by (simp add: js_def trim_def isWhiteSpace_def)

lemma trim_Walk_dog [simp]: "trim (js ''Walk dog'') = js ''Walk dog''"
  by (simp add: js_def trim_def isWhiteSpace_def)

section \<open>Rejected update arguments\<close>

text \<open>
  Claim C1, as the code has it.  For every id, an \<open>updates\<close> argument that is absent
  (\<^verbatim>\<open>undefined\<close> or \<^verbatim>\<open>null\<close>) or not an object (a boolean, a number or a string) makes
  \<open>updateTodo\<close> fail before the store is consulted: with ``Valid todo ID is required'' when
  the id is not a non-empty string, with ``Updates object is required'' otherwise.  The state
  of the store and the environment are returned unchanged.
\<close>

theorem updateTodo_rejects_non_object:
  assumes "updates = JUndefined \<or> updates = JNull \<or> (\<exists>b. updates = JBool b)
           \<or> (\<exists>n. updates = JNum n) \<or> (\<exists>s. updates = JStr s)"
  shows "updateTodo P S ident updates st =
           (Inl (Error (if truthy ident \<and> typeof ident = ''string''
                        then ''Updates object is required''
                        else ''Valid todo ID is required'')), st)"
  using assms by (auto simp: updateTodo_def)

theorem updateTodo_rejects_non_object_witness:
  "updateTodo example_platform (storageService example_platform example_store)
     (JStr (js ''todo-1'')) JNull
     (example_fs (JArr [example_record ''todo-1'' ''Buy milk'' False]) no_faults, example_env)
   = (Inl (Error ''Updates object is required''),
      (example_fs (JArr [example_record ''todo-1'' ''Buy milk'' False]) no_faults, example_env))
   \<and> updateTodo example_platform (storageService example_platform example_store)
     (JStr (js ''todo-1'')) (JStr (js ''string''))
     (example_fs (JArr [example_record ''todo-1'' ''Buy milk'' False]) no_faults, example_env)
   = (Inl (Error ''Updates object is required''),
      (example_fs (JArr [example_record ''todo-1'' ''Buy milk'' False]) no_faults, example_env))
   \<and> updateTodo example_platform (storageService example_platform example_store)
     (JStr []) JUndefined
     (example_fs (JArr [example_record ''todo-1'' ''Buy milk'' False]) no_faults, example_env)
   = (Inl (Error ''Valid todo ID is required''),
      (example_fs (JArr [example_record ''todo-1'' ''Buy milk'' False]) no_faults, example_env))"
proof -
  have a: "JNull = JUndefined \<or> JNull = JNull \<or> (\<exists>b. JNull = JBool b)
           \<or> (\<exists>n. JNull = JNum n) \<or> (\<exists>s. JNull = JStr s)"
    by simp
  have b: "JStr (js ''string'') = JUndefined \<or> JStr (js ''string'') = JNull
           \<or> (\<exists>b. JStr (js ''string'') = JBool b)
           \<or> (\<exists>n. JStr (js ''string'') = JNum n) \<or> (\<exists>s. JStr (js ''string'') = JStr s)"
    by simp
  have c: "JUndefined = JUndefined \<or> JUndefined = JNull \<or> (\<exists>b. JUndefined = JBool b)
           \<or> (\<exists>n. JUndefined = JNum n) \<or> (\<exists>s. JUndefined = JStr s)"
    by simp
  show ?thesis
    using updateTodo_rejects_non_object [OF a, of example_platform
            "storageService example_platform example_store" "JStr (js ''todo-1'')"]
          updateTodo_rejects_non_object [OF b, of example_platform
            "storageService example_platform example_store" "JStr (js ''todo-1'')"]
          updateTodo_rejects_non_object [OF c, of example_platform
            "storageService example_platform example_store" "JStr []"]
    by simp
qed

text \<open>
  Claim C1 as stated fails for the empty mapping: \<^verbatim>\<open>updateTodo('todo-1', {})\<close> on a store
  holding that record succeeds and returns the record.
\<close>

theorem updateTodo_empty_mapping_accepted:
  "fst (updateTodo example_platform (storageService example_platform example_store)
          (JStr (js ''todo-1'')) (JObj [])
          (example_fs (JArr [example_record ''todo-1'' ''Buy milk'' False]) no_faults,
           example_env))
   = Inr \<lparr>todo_id = JStr (js ''todo-1''), description = js ''Buy milk'', completed = False,
          createdAt = Some 1704110400000, updatedAt = Some 1704110400000\<rparr>"
  by (simp add: service_defs storage_defs example_defs)

section \<open>Failures of the record store\<close>

lemma getAllTodos_load_fails:
  assumes "loadTodos S (fst st) = (Inl err, s1)"
  shows "getAllTodos P S st =
           (Inl (Error (''Failed to retrieve todos: '' @ message err)), (s1, snd st))"
  using assms by (simp add: getAllTodos_def)

lemma toggleComplete_load_fails:
  assumes "loadTodos S (fst st) = (Inl err, s1)" "truthy ident" "typeof ident = ''string''"
  shows "toggleComplete P S ident st =
           (Inl (Error (''Failed to retrieve todos: '' @ message err)), (s1, snd st))"
  using assms by (simp add: toggleComplete_def getAllTodos_load_fails)

lemma deleteTodo_load_fails:
  assumes "loadTodos S (fst st) = (Inl err, s1)" "truthy ident" "typeof ident = ''string''"
  shows "deleteTodo P S ident st =
           (Inl (Error (''Failed to retrieve todos: '' @ message err)), (s1, snd st))"
  using assms by (simp add: deleteTodo_def getAllTodos_load_fails)

lemma updateTodo_load_fails:
  assumes "loadTodos S (fst st) = (Inl err, s1)" "truthy ident" "typeof ident = ''string''"
    "truthy updates" "typeof updates = ''object''"
  shows "updateTodo P S ident updates st =
           (Inl (Error (''Failed to retrieve todos: '' @ message err)), (s1, snd st))"
  using assms by (simp add: updateTodo_def getAllTodos_load_fails)

lemma createTodo_load_fails:
  assumes "loadTodos S (fst st) = (Inl err, s1)" "new_Todo descr JNull (snd st) = (Inr todo, e1)"
  shows "createTodo P S descr st =
           (Inl (Error (''Failed to create todo: Failed to retrieve todos: '' @ message err)),
            (s1, e1))"
proof -
  have "getAllTodos P S (fst st, e1) =
          (Inl (Error (''Failed to retrieve todos: '' @ message err)), (s1, e1))"
    using assms(1) getAllTodos_load_fails [of S "(fst st, e1)" err s1 P] by simp
  then show ?thesis using assms(2) by (simp add: createTodo_def)
qed

lemma createTodo_save_fails:
  assumes "new_Todo descr JNull (snd st) = (Inr todo, e1)"
    "getAllTodos P S (fst st, e1) = (Inr todos, st1)"
    "saveTodos S (JArr (map toJSON (todos @ [todo]))) (fst st1) = (Inl err, s2)"
  shows "createTodo P S descr st =
           (Inl (Error (''Failed to create todo: '' @ message err)), (s2, snd st1))"
  using assms by (simp add: createTodo_def)

lemma deleteTodo_save_fails:
  assumes "truthy ident" "typeof ident = ''string''"
    "getAllTodos P S st = (Inr todos, st1)"
    "findIndex (\<lambda>todo. todo_id todo = ident) todos = Some k"
    "saveTodos S (JArr (map toJSON (take k todos @ drop (Suc k) todos))) (fst st1) = (Inl err, s2)"
  shows "deleteTodo P S ident st = (Inl err, (s2, snd st1))"
  using assms by (simp add: deleteTodo_def)

lemma toggleComplete_save_fails:
  assumes "truthy ident" "typeof ident = ''string''"
    "getAllTodos P S st = (Inr todos, st1)"
    "findIndex (\<lambda>todo. todo_id todo = ident) todos = Some k"
    "toggleComplete_todo (todos ! k) (snd st1) = (todo, e2)"
    "saveTodos S (JArr (map toJSON (todos[k := todo]))) (fst st1) = (Inl err, s2)"
  shows "toggleComplete P S ident st = (Inl err, (s2, e2))"
  using assms by (simp add: toggleComplete_def)

lemma updateTodo_save_fails:
  assumes "truthy ident" "typeof ident = ''string''" "truthy updates" "typeof updates = ''object''"
    "getAllTodos P S st = (Inr todos, st1)"
    "findIndex (\<lambda>todo. todo_id todo = ident) todos = Some k"
    "(if getprop updates (js ''description'') \<noteq> JUndefined
      then updateDescription (getprop updates (js ''description'')) (todos ! k) (snd st1)
      else (Inr (todos ! k), snd st1)) = (Inr todo1, e2)"
    "(if getprop updates (js ''completed'') \<noteq> JUndefined
      then setCompleted (getprop updates (js ''completed'')) todo1 e2
      else (Inr todo1, e2)) = (Inr todo2, e3)"
    "saveTodos S (JArr (map toJSON (todos[k := todo2]))) (fst st1) = (Inl err, s2)"
  shows "updateTodo P S ident updates st = (Inl err, (s2, e3))"
  using assms by (simp add: updateTodo_def Let_def)

text \<open>
  Claim C2, as the code has it.  No failure of the record store is swallowed, but only some
  pass unmodified.  A failing load is raised again by \<open>getAllTodos\<close> as a new error whose
  message is ``Failed to retrieve todos: '' followed by the store's message, and this is the
  error \<open>updateTodo\<close>, \<open>toggleComplete\<close> and \<open>deleteTodo\<close> raise; \<open>createTodo\<close> puts
  ``Failed to create todo: '' in front of the message of every failure, of the load as of
  the save.  A failing save is raised by \<open>updateTodo\<close>, \<open>toggleComplete\<close> and
  \<open>deleteTodo\<close> exactly as the store raised it.
\<close>

theorem store_failures_reach_caller:
  "(loadTodos S (fst st) = (Inl err, s1) \<longrightarrow>
      getAllTodos P S st =
        (Inl (Error (''Failed to retrieve todos: '' @ message err)), (s1, snd st))
      \<and> (truthy ident \<and> typeof ident = ''string'' \<longrightarrow>
            toggleComplete P S ident st =
              (Inl (Error (''Failed to retrieve todos: '' @ message err)), (s1, snd st))
          \<and> deleteTodo P S ident st =
              (Inl (Error (''Failed to retrieve todos: '' @ message err)), (s1, snd st))
          \<and> (truthy updates \<and> typeof updates = ''object'' \<longrightarrow>
                updateTodo P S ident updates st =
                  (Inl (Error (''Failed to retrieve todos: '' @ message err)), (s1, snd st))))
      \<and> (new_Todo descr JNull (snd st) = (Inr todo, e1) \<longrightarrow>
            createTodo P S descr st =
              (Inl (Error (''Failed to create todo: Failed to retrieve todos: '' @ message err)),
               (s1, e1))))
   \<and> (new_Todo descr JNull (snd st) = (Inr todo, e1)
        \<and> getAllTodos P S (fst st, e1) = (Inr todos', st1')
        \<and> saveTodos S (JArr (map toJSON (todos' @ [todo]))) (fst st1') = (Inl err, s2) \<longrightarrow>
      createTodo P S descr st =
        (Inl (Error (''Failed to create todo: '' @ message err)), (s2, snd st1')))
   \<and> (truthy ident \<and> typeof ident = ''string''
        \<and> getAllTodos P S st = (Inr todos, st1)
        \<and> findIndex (\<lambda>todo. todo_id todo = ident) todos = Some k \<longrightarrow>
      (saveTodos S (JArr (map toJSON (take k todos @ drop (Suc k) todos))) (fst st1)
         = (Inl err, s2) \<longrightarrow>
       deleteTodo P S ident st = (Inl err, (s2, snd st1)))
      \<and> (toggleComplete_todo (todos ! k) (snd st1) = (toggled, e2)
          \<and> saveTodos S (JArr (map toJSON (todos[k := toggled]))) (fst st1) = (Inl err, s2) \<longrightarrow>
         toggleComplete P S ident st = (Inl err, (s2, e2)))
      \<and> (truthy updates \<and> typeof updates = ''object''
          \<and> (if getprop updates (js ''description'') \<noteq> JUndefined
              then updateDescription (getprop updates (js ''description'')) (todos ! k) (snd st1)
              else (Inr (todos ! k), snd st1)) = (Inr todo1, e3)
          \<and> (if getprop updates (js ''completed'') \<noteq> JUndefined
              then setCompleted (getprop updates (js ''completed'')) todo1 e3
              else (Inr todo1, e3)) = (Inr todo2, e4)
          \<and> saveTodos S (JArr (map toJSON (todos[k := todo2]))) (fst st1) = (Inl err, s2) \<longrightarrow>
         updateTodo P S ident updates st = (Inl err, (s2, e4))))"
proof -
  have load: "loadTodos S (fst st) = (Inl err, s1) \<longrightarrow>
      getAllTodos P S st =
        (Inl (Error (''Failed to retrieve todos: '' @ message err)), (s1, snd st))
      \<and> (truthy ident \<and> typeof ident = ''string'' \<longrightarrow>
            toggleComplete P S ident st =
              (Inl (Error (''Failed to retrieve todos: '' @ message err)), (s1, snd st))
          \<and> deleteTodo P S ident st =
              (Inl (Error (''Failed to retrieve todos: '' @ message err)), (s1, snd st))
          \<and> (truthy updates \<and> typeof updates = ''object'' \<longrightarrow>
                updateTodo P S ident updates st =
                  (Inl (Error (''Failed to retrieve todos: '' @ message err)), (s1, snd st))))
      \<and> (new_Todo descr JNull (snd st) = (Inr todo, e1) \<longrightarrow>
            createTodo P S descr st =
              (Inl (Error (''Failed to create todo: Failed to retrieve todos: '' @ message err)),
               (s1, e1)))"
    using getAllTodos_load_fails [of S st err s1 P]
      toggleComplete_load_fails [of S st err s1 ident P]
      deleteTodo_load_fails [of S st err s1 ident P]
      updateTodo_load_fails [of S st err s1 ident updates P]
      createTodo_load_fails [of S st err s1 descr todo e1 P]
    by blast
  have create: "new_Todo descr JNull (snd st) = (Inr todo, e1)
        \<and> getAllTodos P S (fst st, e1) = (Inr todos', st1')
        \<and> saveTodos S (JArr (map toJSON (todos' @ [todo]))) (fst st1') = (Inl err, s2) \<longrightarrow>
      createTodo P S descr st =
        (Inl (Error (''Failed to create todo: '' @ message err)), (s2, snd st1'))"
    using createTodo_save_fails [of descr st todo e1 P S todos' st1' err s2] by blast
  have save: "truthy ident \<and> typeof ident = ''string''
        \<and> getAllTodos P S st = (Inr todos, st1)
        \<and> findIndex (\<lambda>todo. todo_id todo = ident) todos = Some k \<longrightarrow>
      (saveTodos S (JArr (map toJSON (take k todos @ drop (Suc k) todos))) (fst st1)
         = (Inl err, s2) \<longrightarrow>
       deleteTodo P S ident st = (Inl err, (s2, snd st1)))
      \<and> (toggleComplete_todo (todos ! k) (snd st1) = (toggled, e2)
          \<and> saveTodos S (JArr (map toJSON (todos[k := toggled]))) (fst st1) = (Inl err, s2) \<longrightarrow>
         toggleComplete P S ident st = (Inl err, (s2, e2)))
      \<and> (truthy updates \<and> typeof updates = ''object''
          \<and> (if getprop updates (js ''description'') \<noteq> JUndefined
              then updateDescription (getprop updates (js ''description'')) (todos ! k) (snd st1)
              else (Inr (todos ! k), snd st1)) = (Inr todo1, e3)
          \<and> (if getprop updates (js ''completed'') \<noteq> JUndefined
              then setCompleted (getprop updates (js ''completed'')) todo1 e3
              else (Inr todo1, e3)) = (Inr todo2, e4)
          \<and> saveTodos S (JArr (map toJSON (todos[k := todo2]))) (fst st1) = (Inl err, s2) \<longrightarrow>
         updateTodo P S ident updates st = (Inl err, (s2, e4)))"
    using deleteTodo_save_fails [of ident P S st todos st1 k err s2]
      toggleComplete_save_fails [of ident P S st todos st1 k toggled e2 err s2]
      updateTodo_save_fails [of ident updates P S st todos st1 k todo1 e3 todo2 e4 err s2]
    by blast
  show ?thesis using load create save by blast
qed

lemmas example_defs2 = example_docs_def example_todo_def

lemma pair_sndI: "fst x = a \<Longrightarrow> x = (a, snd x)"
  by (cases x) simp

lemma example_getAllTodos:
  "fst (getAllTodos example_platform (storageService example_platform example_store)
          (example_fs example_docs (rename_refused 3), e))
   = Inr [example_todo ''todo-1'' ''Buy milk'' False, example_todo ''todo-2'' ''Walk dog'' True]"
  by (simp add: service_defs storage_defs example_defs example_defs2 read_denied_def
          rename_refused_def)

text \<open>
  Claim C2 as stated fails for \<open>getAllTodos\<close>: when reading the file is denied, the store
  raises ``Failed to load todos: EACCES: permission denied'' and the service raises another
  error, with a longer message.
\<close>

theorem getAllTodos_wraps_store_error:
  "fst (loadTodos (storageService example_platform example_store)
          (example_fs example_docs read_denied))
     = Inl (Error ''Failed to load todos: EACCES: permission denied'')
   \<and> fst (getAllTodos example_platform (storageService example_platform example_store)
            (example_fs example_docs read_denied, example_env))
     = Inl (Error ''Failed to retrieve todos: Failed to load todos: EACCES: permission denied'')
   \<and> fst (getAllTodos example_platform (storageService example_platform example_store)
            (example_fs example_docs read_denied, example_env))
     \<noteq> Inl (Error ''Failed to load todos: EACCES: permission denied'')"
  by (simp add: service_defs storage_defs example_defs example_defs2 read_denied_def
          rename_refused_def)

theorem store_failures_reach_caller_witness:
  "fst (loadTodos (storageService example_platform example_store)
          (example_fs example_docs read_denied))
     = Inl (Error ''Failed to load todos: EACCES: permission denied'')
   \<and> fst (getAllTodos example_platform (storageService example_platform example_store)
            (example_fs example_docs read_denied, example_env))
     = Inl (Error ''Failed to retrieve todos: Failed to load todos: EACCES: permission denied'')
   \<and> fst (toggleComplete example_platform (storageService example_platform example_store)
            (JStr (js ''todo-1'')) (example_fs example_docs read_denied, example_env))
     = Inl (Error ''Failed to retrieve todos: Failed to load todos: EACCES: permission denied'')
   \<and> fst (deleteTodo example_platform (storageService example_platform example_store)
            (JStr (js ''todo-1'')) (example_fs example_docs read_denied, example_env))
     = Inl (Error ''Failed to retrieve todos: Failed to load todos: EACCES: permission denied'')
   \<and> fst (updateTodo example_platform (storageService example_platform example_store)
            (JStr (js ''todo-1'')) (JObj [(js ''completed'', JBool True)])
            (example_fs example_docs read_denied, example_env))
     = Inl (Error ''Failed to retrieve todos: Failed to load todos: EACCES: permission denied'')
   \<and> fst (createTodo example_platform (storageService example_platform example_store)
            (JStr (js ''Buy milk'')) (example_fs example_docs read_denied, example_env))
     = Inl (Error ''Failed to create todo: Failed to retrieve todos: Failed to load todos: EACCES: permission denied'')
   \<and> fst (createTodo example_platform (storageService example_platform example_store)
            (JStr (js ''Buy milk'')) (example_fs example_docs (rename_refused 3), example_env))
     = Inl (Error ''Failed to create todo: Failed to save todos: EBUSY: resource busy or locked'')
   \<and> fst (deleteTodo example_platform (storageService example_platform example_store)
            (JStr (js ''todo-1'')) (example_fs example_docs (rename_refused 3), example_env))
     = Inl (Error ''Failed to save todos: EBUSY: resource busy or locked'')
   \<and> fst (toggleComplete example_platform (storageService example_platform example_store)
            (JStr (js ''todo-1'')) (example_fs example_docs (rename_refused 3), example_env))
     = Inl (Error ''Failed to save todos: EBUSY: resource busy or locked'')
   \<and> fst (updateTodo example_platform (storageService example_platform example_store)
            (JStr (js ''todo-1'')) (JObj [(js ''completed'', JBool True)])
            (example_fs example_docs (rename_refused 3), example_env))
     = Inl (Error ''Failed to save todos: EBUSY: resource busy or locked'')"
proof -
  let ?P = example_platform
  let ?S = "storageService example_platform example_store"
  let ?A = "(example_fs example_docs read_denied, example_env)"
  let ?B = "(example_fs example_docs (rename_refused 3), example_env)"
  let ?id = "JStr (js ''todo-1'')"
  let ?up = "JObj [(js ''completed'', JBool True)]"
  let ?d = "JStr (js ''Buy milk'')"
  let ?todos = "[example_todo ''todo-1'' ''Buy milk'' False, example_todo ''todo-2'' ''Walk dog'' True]"
  let ?lerr = "Error ''Failed to load todos: EACCES: permission denied''"
  let ?serr = "Error ''Failed to save todos: EBUSY: resource busy or locked''"
  let ?new = "new_Todo ?d JNull example_env"
  let ?todo = "\<lparr>todo_id = JStr (js ''a1b2c3d4-0000-4000-8000-000000000000''),
      description = js ''Buy milk'', completed = False,
      createdAt = Some 1704110460000, updatedAt = Some 1704110460000\<rparr>"
  have idok: "truthy ?id \<and> typeof ?id = ''string''" by simp
  have upok: "truthy ?up \<and> typeof ?up = ''object''" by simp
  have new: "?new = (Inr ?todo, snd ?new)"
    by (rule pair_sndI) (simp add: service_defs example_defs)
  \<comment> \<open>the load fails\<close>
  have loadA: "loadTodos ?S (fst ?A) = (Inl ?lerr, snd (loadTodos ?S (fst ?A)))"
    by (rule pair_sndI) (simp add: storage_defs example_defs example_defs2 read_denied_def
          rename_refused_def)
  note A = store_failures_reach_caller [of ?S ?A ?lerr "snd (loadTodos ?S (fst ?A))" ?P ?id ?up
      ?d ?todo "snd ?new"]
  have newA: "new_Todo ?d JNull (snd ?A) = (Inr ?todo, snd ?new)"
    using new by simp
  have a1: "fst (loadTodos ?S (example_fs example_docs read_denied)) = Inl ?lerr"
    using loadA by (metis fst_conv)
  have a2: "fst (getAllTodos ?P ?S ?A)
      = Inl (Error ''Failed to retrieve todos: Failed to load todos: EACCES: permission denied'')"
    using A loadA by simp
  have a3: "fst (toggleComplete ?P ?S ?id ?A)
      = Inl (Error ''Failed to retrieve todos: Failed to load todos: EACCES: permission denied'')"
    using A loadA idok by simp
  have a4: "fst (deleteTodo ?P ?S ?id ?A)
      = Inl (Error ''Failed to retrieve todos: Failed to load todos: EACCES: permission denied'')"
    using A loadA idok by simp
  have a5: "fst (updateTodo ?P ?S ?id ?up ?A)
      = Inl (Error ''Failed to retrieve todos: Failed to load todos: EACCES: permission denied'')"
    using A loadA idok upok by simp
  have a6: "fst (createTodo ?P ?S ?d ?A)
      = Inl (Error ''Failed to create todo: Failed to retrieve todos: Failed to load todos: EACCES: permission denied'')"
    using A loadA newA by simp
  \<comment> \<open>the save fails\<close>
  let ?getB = "getAllTodos ?P ?S ?B"
  let ?getB' = "getAllTodos ?P ?S (fst ?B, snd ?new)"
  have getB: "?getB = (Inr ?todos, snd ?getB)"
    by (rule pair_sndI) (rule example_getAllTodos)
  have getB': "?getB' = (Inr ?todos, snd ?getB')"
    by (rule pair_sndI) (simp add: example_getAllTodos)
  have find: "findIndex (\<lambda>todo. todo_id todo = ?id) ?todos = Some 0"
    by (simp add: example_defs2)
  let ?tog = "toggleComplete_todo (?todos ! 0) (snd (snd ?getB))"
  let ?upd = "setCompleted (JBool True) (?todos ! 0) (snd (snd ?getB))"
  let ?todo2 = "(?todos ! 0)\<lparr>completed := True, updatedAt := Some 1704110460000\<rparr>"
  have fsB: "fst (snd ?getB) = (example_fs example_docs (rename_refused 3))\<lparr>calls := 1\<rparr>"
    by (simp add: service_defs storage_defs example_defs example_defs2 read_denied_def
          rename_refused_def)
  have fsB': "fst (snd ?getB') = (example_fs example_docs (rename_refused 3))\<lparr>calls := 1\<rparr>"
    by (simp add: service_defs storage_defs example_defs example_defs2 read_denied_def
          rename_refused_def)
  have clockB: "clock (snd (snd ?getB)) = (\<lambda>n. 1704110460000)"
    by (simp add: service_defs storage_defs example_defs example_defs2 read_denied_def
          rename_refused_def)
  have save: "fst (saveTodos ?S (JArr xs) ((example_fs example_docs (rename_refused 3))\<lparr>calls := 1\<rparr>))
      = Inl ?serr" for xs
    by (simp add: storage_defs example_defs example_defs2 read_denied_def
          rename_refused_def)
  have upd: "?upd = (Inr ?todo2, snd ?upd)"
    by (rule pair_sndI) (simp add: setCompleted_def new_Date_def clockB)
  have tog: "?tog = (fst ?tog, snd ?tog)" by simp
  let ?s_del = "saveTodos ?S (JArr (map toJSON (take 0 ?todos @ drop (Suc 0) ?todos))) (fst (snd ?getB))"
  let ?s_tog = "saveTodos ?S (JArr (map toJSON (?todos[0 := fst ?tog]))) (fst (snd ?getB))"
  let ?s_upd = "saveTodos ?S (JArr (map toJSON (?todos[0 := ?todo2]))) (fst (snd ?getB))"
  let ?s_new = "saveTodos ?S (JArr (map toJSON (?todos @ [?todo]))) (fst (snd ?getB'))"
  have s_del: "?s_del = (Inl ?serr, snd ?s_del)"
    by (rule pair_sndI) (simp only: fsB save)
  have s_tog: "?s_tog = (Inl ?serr, snd ?s_tog)"
    by (rule pair_sndI) (simp only: fsB save)
  have s_upd: "?s_upd = (Inl ?serr, snd ?s_upd)"
    by (rule pair_sndI) (simp only: fsB save)
  have s_new: "?s_new = (Inl ?serr, snd ?s_new)"
    by (rule pair_sndI) (simp only: fsB' save)
  have newB: "new_Todo ?d JNull (snd ?B) = (Inr ?todo, snd ?new)"
    using new by simp
  have b1: "fst (createTodo ?P ?S ?d ?B)
      = Inl (Error ''Failed to create todo: Failed to save todos: EBUSY: resource busy or locked'')"
    using store_failures_reach_caller [of ?S ?B ?serr _ ?P ?id ?up ?d ?todo "snd ?new"
        ?todos "snd ?getB'" "snd ?s_new"] newB getB' s_new
    by simp
  have b2: "fst (deleteTodo ?P ?S ?id ?B) = Inl ?serr"
    using store_failures_reach_caller [of ?S ?B ?serr _ ?P ?id ?up ?d ?todo "snd ?new"
        ?todos "snd ?getB'" "snd ?s_del" ?todos "snd ?getB" 0] idok getB find s_del
    by simp
  have b3: "fst (toggleComplete ?P ?S ?id ?B) = Inl ?serr"
    using store_failures_reach_caller [of ?S ?B ?serr _ ?P ?id ?up ?d ?todo "snd ?new"
        ?todos "snd ?getB'" "snd ?s_tog" ?todos "snd ?getB" 0 "fst ?tog" "snd ?tog"]
      idok getB find tog s_tog
    by simp
  have up1: "(if getprop ?up (js ''description'') \<noteq> JUndefined
              then updateDescription (getprop ?up (js ''description'')) (?todos ! 0) (snd (snd ?getB))
              else (Inr (?todos ! 0), snd (snd ?getB))) = (Inr (?todos ! 0), snd (snd ?getB))"
    by simp
  have up2: "(if getprop ?up (js ''completed'') \<noteq> JUndefined
              then setCompleted (getprop ?up (js ''completed'')) (?todos ! 0) (snd (snd ?getB))
              else (Inr (?todos ! 0), snd (snd ?getB))) = (Inr ?todo2, snd ?upd)"
    using upd by simp
  have b4: "fst (updateTodo ?P ?S ?id ?up ?B) = Inl ?serr"
    using store_failures_reach_caller [of ?S ?B ?serr _ ?P ?id ?up ?d ?todo "snd ?new"
        ?todos "snd ?getB'" "snd ?s_upd" ?todos "snd ?getB" 0 "fst ?tog" "snd ?tog"
        "?todos ! 0" "snd (snd ?getB)" ?todo2 "snd ?upd"]
      idok upok getB find up1 up2 s_upd
    by simp
  show ?thesis using a1 a2 a3 a4 a5 a6 b1 b2 b3 b4 by blast
qed

section \<open>Creation with an invalid description\<close>

lemma new_Todo_invalid:
  assumes "validateDescription descr = Inl err"
  shows "new_Todo descr JNull e = (Inl err, e\<lparr>drawn := Suc (drawn e)\<rparr>)"
  using assms by (simp add: new_Todo_def uuidv4_def)

lemma createTodo_invalid:
  assumes "validateDescription descr = Inl err"
  shows "createTodo P S descr st =
           (Inl (Error (''Failed to create todo: '' @ message err)),
            (fst st, (snd st)\<lparr>drawn := Suc (drawn (snd st))\<rparr>))"
  using assms by (simp add: createTodo_def new_Todo_invalid)

lemma storage_load_existing:
  assumes "files w (filePath this) = Some (Json v)" "plan w (calls w) = None"
  shows "StorageService_loadTodos P this w = (Inr v, w\<lparr>calls := Suc (calls w)\<rparr>)"
  using assms by (simp add: StorageService_loadTodos_def fs_readFile_def next_fault_def)

text \<open>
  Claim C8.  \<open>createTodo\<close> with the empty string raises ``Failed to create todo: Description
  cannot be empty'' (as does every description that validation rejects, with the message of
  the rejection).  The store is not called: its state after the failed call is the state
  before (only a UUID has been drawn), so the store loads, and \<open>getAllTodos\<close> returns, what
  they did before.  On a file store whose file holds the empty collection, \<open>getAllTodos\<close>
  after the failed call returns the empty list.
\<close>

theorem createTodo_empty_description:
  "createTodo P S (JStr []) st =
     (Inl (Error ''Failed to create todo: Description cannot be empty''),
      (fst st, (snd st)\<lparr>drawn := Suc (drawn (snd st))\<rparr>))
   \<and> (validateDescription descr = Inl err \<longrightarrow>
        createTodo P S descr st =
          (Inl (Error (''Failed to create todo: '' @ message err)),
           (fst st, (snd st)\<lparr>drawn := Suc (drawn (snd st))\<rparr>)))
   \<and> loadTodos S (fst (snd (createTodo P S (JStr []) st))) = loadTodos S (fst st)
   \<and> (\<forall>e'. getAllTodos P S (fst (snd (createTodo P S (JStr []) st)), e')
            = getAllTodos P S (fst st, e'))
   \<and> (files w (filePath this) = Some (Json (JArr [])) \<and> plan w (calls w) = None \<longrightarrow>
        fst (getAllTodos P (storageService P this)
               (snd (createTodo P (storageService P this) (JStr []) (w, e)))) = Inr [])"
proof -
  have v: "validateDescription (JStr []) = Inl (Error ''Description cannot be empty'')"
    by (simp add: trim_def)
  have a: "createTodo P S (JStr []) st =
     (Inl (Error ''Failed to create todo: Description cannot be empty''),
      (fst st, (snd st)\<lparr>drawn := Suc (drawn (snd st))\<rparr>))" for S :: "'x store" and st
    using createTodo_invalid [OF v, of P S st] by simp
  have b: "validateDescription descr = Inl err \<longrightarrow>
        createTodo P S descr st =
          (Inl (Error (''Failed to create todo: '' @ message err)),
           (fst st, (snd st)\<lparr>drawn := Suc (drawn (snd st))\<rparr>))"
    using createTodo_invalid [of descr err P S st] by blast
  have c: "files w (filePath this) = Some (Json (JArr [])) \<and> plan w (calls w) = None \<longrightarrow>
        fst (getAllTodos P (storageService P this)
               (snd (createTodo P (storageService P this) (JStr []) (w, e)))) = Inr []"
    by (simp add: a getAllTodos_def storageService_def storage_load_existing)
  show ?thesis using b c by (simp add: a)
qed

theorem createTodo_empty_description_witness:
  "createTodo example_platform (storageService example_platform example_store) (JStr [])
      (example_fs (JArr []) no_faults, example_env)
     = (Inl (Error ''Failed to create todo: Description cannot be empty''),
        (example_fs (JArr []) no_faults, example_env\<lparr>drawn := 1\<rparr>))
   \<and> createTodo example_platform (storageService example_platform example_store)
        (JStr (js ''   '')) (example_fs (JArr []) no_faults, example_env)
     = (Inl (Error ''Failed to create todo: Description cannot be empty''),
        (example_fs (JArr []) no_faults, example_env\<lparr>drawn := 1\<rparr>))
   \<and> fst (getAllTodos example_platform (storageService example_platform example_store)
            (snd (createTodo example_platform (storageService example_platform example_store)
                    (JStr []) (example_fs (JArr []) no_faults, example_env)))) = Inr []"
proof -
  let ?S = "storageService example_platform example_store"
  let ?w = "example_fs (JArr []) no_faults"
  have v: "validateDescription (JStr (js ''   '')) = Inl (Error ''Description cannot be empty'')"
    by (simp add: trim_def js_def isWhiteSpace_def)
  have h: "files ?w (filePath example_store) = Some (Json (JArr [])) \<and> plan ?w (calls ?w) = None"
    by (simp add: example_defs)
  have d: "drawn example_env = 0" by (simp add: example_defs)
  note T = createTodo_empty_description [of example_platform ?S "(?w, example_env)"
        "JStr (js ''   '')" "Error ''Description cannot be empty''" ?w example_store example_env]
  have c1: "createTodo example_platform ?S (JStr []) (?w, example_env)
     = (Inl (Error ''Failed to create todo: Description cannot be empty''),
        (?w, example_env\<lparr>drawn := 1\<rparr>))"
    using T d by simp
  have c2: "createTodo example_platform ?S (JStr (js ''   '')) (?w, example_env)
     = (Inl (Error ''Failed to create todo: Description cannot be empty''),
        (?w, example_env\<lparr>drawn := 1\<rparr>))"
    using T v d by (simp del: validateDescription.simps)
  have c3: "fst (getAllTodos example_platform ?S
                   (snd (createTodo example_platform ?S (JStr []) (?w, example_env)))) = Inr []"
    using T h by blast
  show ?thesis using c1 c2 c3 by blast
qed

section \<open>Descriptions are stored trimmed\<close>

lemma validateDescription_Inr:
  assumes "validateDescription v = Inr d"
  shows "\<exists>s. v = JStr s \<and> d = trim s"
  using assms by (cases v) (auto simp: Let_def split: if_splits)

lemma new_Todo_description:
  assumes "new_Todo descr ident e = (Inr todo, e')"
  shows "\<exists>s. descr = JStr s \<and> description todo = trim s"
proof (cases "validateDescription descr")
  case (Inl err)
  with assms show ?thesis by (simp add: new_Todo_def split_def Let_def)
next
  case (Inr d)
  with assms have "description todo = d"
    by (auto simp: new_Todo_def split_def Let_def)
  with Inr show ?thesis using validateDescription_Inr by blast
qed

lemma fromJSON_description:
  assumes "fromJSON P doc e = (Inr todo, e')"
  shows "trim (description todo) = description todo"
proof -
  from assms obtain t0 e0 where
    n: "new_Todo (getprop doc (js ''description'')) (getprop doc (js ''id'')) e = (Inr t0, e0)"
    and d: "description todo = description t0"
    by (auto simp: fromJSON_def Let_def split: if_splits prod.splits sum.splits jsval.splits)
  from new_Todo_description [OF n] d show ?thesis by (auto simp: trim_idem)
qed

lemma fromJSON_map_description:
  "fromJSON_map P docs e = (Inr todos, e') \<Longrightarrow>
     \<forall>t \<in> set todos. trim (description t) = description t"
proof (induction docs arbitrary: e todos)
  case Nil
  then show ?case by simp
next
  case (Cons doc docs)
  then show ?case
    by (auto split: prod.splits sum.splits dest: fromJSON_description)
qed

lemma getAllTodos_description:
  assumes "getAllTodos P S st = (Inr todos, st')"
  shows "\<forall>t \<in> set todos. trim (description t) = description t"
  using assms
  by (auto simp: getAllTodos_def split: prod.splits sum.splits jsval.splits
           dest!: fromJSON_map_description)

lemma findIndex_Some:
  "findIndex p xs = Some k \<Longrightarrow> k < length xs \<and> p (xs ! k) \<and> (\<forall>j<k. \<not> p (xs ! j))"
proof (induction xs arbitrary: k)
  case Nil
  then show ?case by simp
next
  case (Cons x xs)
  show ?case
  proof (cases "p x")
    case True
    with Cons.prems show ?thesis by simp
  next
    case False
    with Cons.prems obtain k' where k': "findIndex p xs = Some k'" "k = Suc k'"
      by auto
    from Cons.IH [OF k'(1)] False k'(2) show ?thesis
      by (auto simp: less_Suc_eq_0_disj)
  qed
qed

lemma findIndex_None: "findIndex p xs = None \<longleftrightarrow> (\<forall>x \<in> set xs. \<not> p x)"
  by (induction xs) auto

lemma createTodo_Inr:
  assumes "createTodo P S descr st = (Inr todo, st')"
  shows "\<exists>e1 todos st1 u. new_Todo descr JNull (snd st) = (Inr todo, e1)
           \<and> getAllTodos P S (fst st, e1) = (Inr todos, st1)
           \<and> saveTodos S (JArr (map toJSON (todos @ [todo]))) (fst st1) = (Inr u, fst st')
           \<and> snd st' = snd st1"
  using assms
  by (auto simp: createTodo_def split: prod.splits sum.splits)

lemma updateTodo_Inr:
  assumes "updateTodo P S ident updates st = (Inr todo, st')"
  shows "\<exists>todos st1 k todo1 e2 u.
           getAllTodos P S st = (Inr todos, st1)
           \<and> findIndex (\<lambda>t. todo_id t = ident) todos = Some k
           \<and> (if getprop updates (js ''description'') \<noteq> JUndefined
               then updateDescription (getprop updates (js ''description'')) (todos ! k) (snd st1)
               else (Inr (todos ! k), snd st1)) = (Inr todo1, e2)
           \<and> (if getprop updates (js ''completed'') \<noteq> JUndefined
               then setCompleted (getprop updates (js ''completed'')) todo1 e2
               else (Inr todo1, e2)) = (Inr todo, snd st')
           \<and> saveTodos S (JArr (map toJSON (todos[k := todo]))) (fst st1) = (Inr u, fst st')"
  using assms unfolding updateTodo_def Let_def
  by (auto split: if_splits prod.splits sum.splits option.splits)

lemma updateDescription_Inr:
  assumes "updateDescription v todo e = (Inr todo1, e')"
  shows "\<exists>s. v = JStr s \<and> description todo1 = trim s"
proof (cases "validateDescription v")
  case (Inl err)
  with assms show ?thesis by (simp add: updateDescription_def)
next
  case (Inr d)
  with assms have "description todo1 = d"
    by (auto simp: updateDescription_def new_Date_def)
  with Inr show ?thesis using validateDescription_Inr by blast
qed

lemma setCompleted_description:
  assumes "setCompleted v todo e = (Inr todo1, e')"
  shows "description todo1 = description todo"
  using assms by (cases v) (auto simp: setCompleted_def new_Date_def)

lemma set_list_update_subset: "set (xs[k := x]) \<subseteq> insert x (set xs)"
  by (rule set_update_subset_insert)

lemma trim_padded_Buy_milk [simp]: "trim (js ''  Buy milk '') = js ''Buy milk''"
  by (simp add: js_def trim_def isWhiteSpace_def)

lemma trim_padded_Walk_dog [simp]: "trim (js '' Walk the dog  '') = js ''Walk the dog''"
  by (simp add: js_def trim_def isWhiteSpace_def)

section \<open>Revalidation of stored records\<close>

lemma fromJSON_invalid_description:
  assumes "truthy doc" "typeof doc = ''object''"
    "validateDescription (getprop doc (js ''description'')) = Inl err"
  shows "fst (fromJSON P doc e) = Inl err"
  using assms by (simp add: fromJSON_def new_Todo_def split_def Let_def)

lemma fromJSON_error_message:
  assumes "fromJSON P doc e = (Inl err, e')"
  shows "message err \<in> {''Invalid todo data'', ''Description must be a string'',
           ''Description cannot be empty'', ''Description cannot exceed 500 characters''}"
proof (cases "\<not> truthy doc \<or> typeof doc \<noteq> ''object''")
  case True
  with assms show ?thesis by (auto simp: fromJSON_def)
next
  case False
  with assms have "validateDescription (getprop doc (js ''description'')) = Inl err"
    by (cases "validateDescription (getprop doc (js ''description''))")
       (auto simp: fromJSON_def new_Todo_def split_def Let_def)
  then show ?thesis
    by (cases "getprop doc (js ''description'')") (auto simp: Let_def split: if_splits)
qed

lemma fromJSON_map_invalid:
  assumes "doc \<in> set docs" "truthy doc" "typeof doc = ''object''"
    "validateDescription (getprop doc (js ''description'')) = Inl verr"
  shows "\<exists>err. fst (fromJSON_map P docs e) = Inl err
           \<and> message err \<in> {''Invalid todo data'', ''Description must be a string'',
                ''Description cannot be empty'', ''Description cannot exceed 500 characters''}"
  using assms(1)
proof (induction docs arbitrary: e)
  case Nil
  then show ?case by simp
next
  case (Cons d ds)
  obtain r e1 where r: "fromJSON P d e = (r, e1)" by (cases "fromJSON P d e")
  show ?case
  proof (cases r)
    case (Inl err)
    with r fromJSON_error_message [of P d e err e1] show ?thesis by simp
  next
    case (Inr todo)
    have "d \<noteq> doc"
      using fromJSON_invalid_description [OF assms(2,3,4), of P e] r Inr by auto
    with Cons.prems have "doc \<in> set ds" by simp
    from Cons.IH [OF this, of e1] obtain err where
      "fst (fromJSON_map P ds e1) = Inl err"
      "message err \<in> {''Invalid todo data'', ''Description must be a string'',
                ''Description cannot be empty'', ''Description cannot exceed 500 characters''}"
      by blast
    then show ?thesis using r Inr
      by (cases "fromJSON_map P ds e1") auto
  qed
qed

lemma fromJSON_map_first_invalid:
  assumes "list_all (stored_record P) pre" "truthy doc" "typeof doc = ''object''"
    "validateDescription (getprop doc (js ''description'')) = Inl verr"
  shows "fst (fromJSON_map P (pre @ doc # post) e) = Inl verr"
  using assms(1)
proof (induction pre arbitrary: e)
  case Nil
  obtain r e1 where r: "fromJSON P doc e = (r, e1)" by (cases "fromJSON P doc e")
  with fromJSON_invalid_description [OF assms(2,3,4), of P e] show ?case by simp
next
  case (Cons d ds)
  then have "fromJSON P d e = (Inr (decode P d), e\<lparr>ticks := Suc (Suc (ticks e))\<rparr>)"
    by (simp add: fromJSON_stored)
  moreover from Cons have "fst (fromJSON_map P (ds @ doc # post) (e\<lparr>ticks := Suc (Suc (ticks e))\<rparr>)) = Inl verr"
    by simp
  ultimately show ?case
    by (cases "fromJSON_map P (ds @ doc # post) (e\<lparr>ticks := Suc (Suc (ticks e))\<rparr>)") simp
qed

text \<open>
  Claim C10.  \<open>getAllTodos\<close> validates every record again while it builds the \<open>Todo\<close>
  objects.  When the store loads an array without failure and some element of it is an
  object whose description validation rejects (missing, not a string, empty after trimming,
  or longer than 500 after trimming), \<open>getAllTodos\<close> does not return the collection: it
  raises ``Failed to retrieve todos: '' followed by the message of the first rejected
  element.  When the elements before the offending one are records as the service writes
  them, that message is the one validation gave for its description.
\<close>

theorem getAllTodos_revalidates:
  assumes "loadTodos S (fst st) = (Inr (JArr docs), s1)"
    and "doc \<in> set docs" and "truthy doc" and "typeof doc = ''object''"
    and "validateDescription (getprop doc (js ''description'')) = Inl verr"
  shows "(\<exists>m. fst (getAllTodos P S st) = Inl (Error (''Failed to retrieve todos: '' @ m))
            \<and> m \<in> {''Invalid todo data'', ''Description must be a string'',
                    ''Description cannot be empty'', ''Description cannot exceed 500 characters''})
         \<and> (\<forall>pre post. docs = pre @ doc # post \<and> list_all (stored_record P) pre \<longrightarrow>
              fst (getAllTodos P S st)
                = Inl (Error (''Failed to retrieve todos: '' @ message verr)))"
proof -
  have g: "fst (getAllTodos P S st) =
      (case fst (fromJSON_map P docs (snd st)) of
         Inl err \<Rightarrow> Inl (Error (''Failed to retrieve todos: '' @ message err))
       | Inr todos \<Rightarrow> Inr todos)"
    using assms(1)
    by (cases "fromJSON_map P docs (snd st)") (auto simp: getAllTodos_def split: sum.splits)
  from fromJSON_map_invalid [OF assms(2-5), of P "snd st"] obtain err where
    err: "fst (fromJSON_map P docs (snd st)) = Inl err"
      "message err \<in> {''Invalid todo data'', ''Description must be a string'',
                ''Description cannot be empty'', ''Description cannot exceed 500 characters''}"
    by blast
  have a: "\<exists>m. fst (getAllTodos P S st) = Inl (Error (''Failed to retrieve todos: '' @ m))
            \<and> m \<in> {''Invalid todo data'', ''Description must be a string'',
                    ''Description cannot be empty'', ''Description cannot exceed 500 characters''}"
    using g err by simp
  have b: "\<forall>pre post. docs = pre @ doc # post \<and> list_all (stored_record P) pre \<longrightarrow>
              fst (getAllTodos P S st)
                = Inl (Error (''Failed to retrieve todos: '' @ message verr))"
    using g fromJSON_map_first_invalid [OF _ assms(3-5), of P _ _ "snd st"] by simp
  show ?thesis using a b by blast
qed

lemma example_record_stored:
  "stored_record example_platform (example_record ''todo-1'' ''Buy milk'' False)"
  by (simp add: stored_record_def stored_timestamp_def example_platform_def example_record_def)

theorem getAllTodos_revalidates_witness:
  "fst (getAllTodos example_platform (storageService example_platform example_store)
          (example_fs (JArr [example_record ''todo-1'' ''Buy milk'' False,
                             JObj [(js ''id'', JStr (js ''todo-3''))]]) no_faults, example_env))
     = Inl (Error ''Failed to retrieve todos: Description must be a string'')
   \<and> fst (getAllTodos example_platform (storageService example_platform example_store)
          (example_fs (JArr [example_record ''todo-1'' ''Buy milk'' False,
                             JObj [(js ''id'', JStr (js ''todo-3'')),
                                   (js ''description'', JNum (Finite 5))]]) no_faults, example_env))
     = Inl (Error ''Failed to retrieve todos: Description must be a string'')
   \<and> fst (getAllTodos example_platform (storageService example_platform example_store)
          (example_fs (JArr [example_record ''todo-1'' ''Buy milk'' False,
                             JObj [(js ''id'', JStr (js ''todo-3'')),
                                   (js ''description'', JStr (js ''   ''))]]) no_faults,
           example_env))
     = Inl (Error ''Failed to retrieve todos: Description cannot be empty'')
   \<and> fst (getAllTodos example_platform (storageService example_platform example_store)
          (example_fs (JArr [example_record ''todo-1'' ''Buy milk'' False,
                             JObj [(js ''id'', JStr (js ''todo-3'')),
                                   (js ''description'', JStr (replicate 501 0x61))]]) no_faults,
           example_env))
     = Inl (Error ''Failed to retrieve todos: Description cannot exceed 500 characters'')"
proof -
  let ?P = example_platform
  let ?S = "storageService example_platform example_store"
  let ?ok = "example_record ''todo-1'' ''Buy milk'' False"
  have inst: "fst (getAllTodos ?P ?S (example_fs (JArr [?ok, JObj kvs]) no_faults, example_env))
      = Inl (Error (''Failed to retrieve todos: '' @ message verr))"
    if v: "validateDescription (getprop (JObj kvs) (js ''description'')) = Inl verr"
    for kvs verr
  proof -
    let ?w = "example_fs (JArr [?ok, JObj kvs]) no_faults"
    have "fst (loadTodos ?S ?w) = Inr (JArr [?ok, JObj kvs])"
      by (simp add: storage_defs example_fs_def example_store_def no_faults_def)
    then have load: "loadTodos ?S (fst (?w, example_env))
        = (Inr (JArr [?ok, JObj kvs]), snd (loadTodos ?S ?w))"
      using pair_sndI by fastforce
    have mem: "JObj kvs \<in> set [?ok, JObj kvs]" by simp
    have obj: "truthy (JObj kvs)" "typeof (JObj kvs) = ''object''" by simp_all
    have pre: "[?ok, JObj kvs] = [?ok] @ JObj kvs # [] \<and> list_all (stored_record ?P) [?ok]"
      using example_record_stored by simp
    from getAllTodos_revalidates [OF load mem obj v, of ?P] pre show ?thesis by blast
  qed
  have ws: "\<not> isWhiteSpace 0x61" by (simp add: isWhiteSpace_def)
  have v1: "validateDescription (getprop (JObj [(js ''id'', JStr (js ''todo-3''))])
              (js ''description'')) = Inl (Error ''Description must be a string'')"
    by simp
  have v2: "validateDescription (getprop (JObj [(js ''id'', JStr (js ''todo-3'')),
              (js ''description'', JNum (Finite 5))]) (js ''description''))
            = Inl (Error ''Description must be a string'')"
    by simp
  have v3: "validateDescription (getprop (JObj [(js ''id'', JStr (js ''todo-3'')),
              (js ''description'', JStr (js ''   ''))]) (js ''description''))
            = Inl (Error ''Description cannot be empty'')"
    by (simp add: trim_def js_def isWhiteSpace_def)
  have v4: "validateDescription (getprop (JObj [(js ''id'', JStr (js ''todo-3'')),
              (js ''description'', JStr (replicate 501 0x61))]) (js ''description''))
            = Inl (Error ''Description cannot exceed 500 characters'')"
    using trim_replicate [OF ws, of 501] by simp
  show ?thesis using inst [OF v1] inst [OF v2] inst [OF v3] inst [OF v4] by simp
qed

section \<open>The file store: saving and loading\<close>

lemma stringify_isArray:
  assumes "isArray todos"
  shows "\<exists>xs. todos = JArr xs \<and> JSON_stringify P todos = Some (JArr (stringify_elems P xs))"
  using assms by (cases todos) simp_all

lemma storage_save_ok:
  assumes "JSON_stringify P (JArr xs) = Some doc"
    and "plan w (calls w) = None" "plan w (Suc (calls w)) = None"
        "plan w (Suc (Suc (calls w))) = None"
  shows "StorageService_saveTodos P this (JArr xs) w =
           (Inr (), w\<lparr>files := ((files w)(filePath this @ ''.tmp'' := None))
                               (filePath this \<mapsto> Json doc),
                     calls := Suc (Suc (Suc (calls w)))\<rparr>)"
  using assms
  by (simp add: StorageService_saveTodos_def fs_mkdir_def fs_writeFile_def fs_rename_def
        next_fault_def Let_def)

lemma storage_save_write_fails:
  assumes "isArray todos" "plan w (calls w) = None"
    "plan w (Suc (calls w)) = Some (Fault c m partial)"
  shows "fst (StorageService_saveTodos P this todos w) = Inl (Error (''Failed to save todos: '' @ m))"
    and "files (snd (StorageService_saveTodos P this todos w)) (filePath this)
           = files w (filePath this)"
    and "plan w (Suc (Suc (calls w))) = None \<Longrightarrow>
         files (snd (StorageService_saveTodos P this todos w)) (filePath this @ ''.tmp'') = None"
proof -
  from stringify_isArray [OF assms(1), of P] obtain xs where
    xs: "todos = JArr xs" "JSON_stringify P todos = Some (JArr (stringify_elems P xs))" by blast
  show "fst (StorageService_saveTodos P this todos w) = Inl (Error (''Failed to save todos: '' @ m))"
    using assms(2,3) xs
    by (simp add: StorageService_saveTodos_def fs_mkdir_def fs_writeFile_def fs_unlink_def
          next_fault_def Let_def)
  show "files (snd (StorageService_saveTodos P this todos w)) (filePath this)
           = files w (filePath this)"
    using assms(2,3) xs
    by (cases "plan w (Suc (Suc (calls w)))"; cases partial)
       (auto simp: StorageService_saveTodos_def fs_mkdir_def fs_writeFile_def fs_unlink_def
          next_fault_def Let_def split: fault.splits)
  show "files (snd (StorageService_saveTodos P this todos w)) (filePath this @ ''.tmp'') = None"
    if "plan w (Suc (Suc (calls w))) = None"
    using assms(2,3) xs that
    by (cases partial)
       (auto simp: StorageService_saveTodos_def fs_mkdir_def fs_writeFile_def fs_unlink_def
          next_fault_def Let_def)
qed

lemma storage_save_rename_fails:
  assumes "isArray todos" "plan w (calls w) = None" "plan w (Suc (calls w)) = None"
    "plan w (Suc (Suc (calls w))) = Some (Fault c m partial)"
  shows "fst (StorageService_saveTodos P this todos w) = Inl (Error (''Failed to save todos: '' @ m))"
    and "files (snd (StorageService_saveTodos P this todos w)) (filePath this)
           = files w (filePath this)"
    and "plan w (Suc (Suc (Suc (calls w)))) = None \<Longrightarrow>
         files (snd (StorageService_saveTodos P this todos w)) (filePath this @ ''.tmp'') = None"
proof -
  from stringify_isArray [OF assms(1), of P] obtain xs where
    xs: "todos = JArr xs" "JSON_stringify P todos = Some (JArr (stringify_elems P xs))" by blast
  show "fst (StorageService_saveTodos P this todos w) = Inl (Error (''Failed to save todos: '' @ m))"
    using assms(2,3,4) xs
    by (simp add: StorageService_saveTodos_def fs_mkdir_def fs_writeFile_def fs_rename_def
          fs_unlink_def next_fault_def Let_def)
  show "files (snd (StorageService_saveTodos P this todos w)) (filePath this)
           = files w (filePath this)"
    using assms(2,3,4) xs
    by (cases "plan w (Suc (Suc (Suc (calls w))))")
       (auto simp: StorageService_saveTodos_def fs_mkdir_def fs_writeFile_def fs_rename_def
          fs_unlink_def next_fault_def Let_def split: fault.splits)
  show "files (snd (StorageService_saveTodos P this todos w)) (filePath this @ ''.tmp'') = None"
    if "plan w (Suc (Suc (Suc (calls w)))) = None"
    using assms(2,3,4) xs that
    by (simp add: StorageService_saveTodos_def fs_mkdir_def fs_writeFile_def fs_rename_def
          fs_unlink_def next_fault_def Let_def)
qed

lemma example_docs_json: "json_value example_docs" "isArray example_docs"
  by (simp_all add: example_docs_def example_record_def)

text \<open>
  Claim C4, as the code has it.  The directory having been ensured, when the staging write
  fails, or the write succeeds and the rename fails, \<open>saveTodos\<close> raises ``Failed to save
  todos: '' followed by the message of the failure, and the final location holds what it held
  before (nothing, if it held nothing).  The cleanup is best effort: when the removal of the
  staging file does not itself fail, no file remains at the staging location.
\<close>

theorem save_failure_atomic:
  "(isArray todos \<and> plan w (calls w) = None
      \<and> plan w (Suc (calls w)) = Some (Fault c m partial) \<longrightarrow>
      fst (StorageService_saveTodos P this todos w)
        = Inl (Error (''Failed to save todos: '' @ m))
      \<and> files (snd (StorageService_saveTodos P this todos w)) (filePath this)
        = files w (filePath this)
      \<and> (plan w (Suc (Suc (calls w))) = None \<longrightarrow>
           files (snd (StorageService_saveTodos P this todos w)) (filePath this @ ''.tmp'')
             = None))
   \<and> (isArray todos \<and> plan w (calls w) = None \<and> plan w (Suc (calls w)) = None
      \<and> plan w (Suc (Suc (calls w))) = Some (Fault c m partial) \<longrightarrow>
      fst (StorageService_saveTodos P this todos w)
        = Inl (Error (''Failed to save todos: '' @ m))
      \<and> files (snd (StorageService_saveTodos P this todos w)) (filePath this)
        = files w (filePath this)
      \<and> (plan w (Suc (Suc (Suc (calls w)))) = None \<longrightarrow>
           files (snd (StorageService_saveTodos P this todos w)) (filePath this @ ''.tmp'')
             = None))"
  using storage_save_write_fails [of todos w c m partial P this]
    storage_save_rename_fails [of todos w c m partial P this]
  by blast

theorem save_failure_atomic_witness:
  "fst (StorageService_saveTodos example_platform example_store example_docs
          (example_fs (JArr []) (write_interrupted 1)))
     = Inl (Error ''Failed to save todos: ENOSPC: no space left on device'')
   \<and> files (snd (StorageService_saveTodos example_platform example_store example_docs
                   (example_fs (JArr []) (write_interrupted 1)))) ''data/todos.json''
     = Some (Json (JArr []))
   \<and> files (snd (StorageService_saveTodos example_platform example_store example_docs
                   (example_fs (JArr []) (write_interrupted 1)))) ''data/todos.json.tmp''
     = None
   \<and> fst (StorageService_saveTodos example_platform example_store example_docs
            (empty_fs (rename_refused 2)))
     = Inl (Error ''Failed to save todos: EBUSY: resource busy or locked'')
   \<and> files (snd (StorageService_saveTodos example_platform example_store example_docs
                   (empty_fs (rename_refused 2)))) ''data/todos.json''
     = None
   \<and> files (snd (StorageService_saveTodos example_platform example_store example_docs
                   (empty_fs (rename_refused 2)))) ''data/todos.json.tmp''
     = None"
proof -
  let ?w1 = "example_fs (JArr []) (write_interrupted 1)"
  let ?w2 = "empty_fs (rename_refused 2)"
  have h1: "isArray example_docs \<and> plan ?w1 (calls ?w1) = None
      \<and> plan ?w1 (Suc (calls ?w1))
          = Some (Fault ''ENOSPC'' ''ENOSPC: no space left on device'' True)"
    by (simp add: example_docs_json example_fs_def write_interrupted_def)
  have u1: "plan ?w1 (Suc (Suc (calls ?w1))) = None"
    by (simp add: example_fs_def write_interrupted_def)
  have h2: "isArray example_docs \<and> plan ?w2 (calls ?w2) = None \<and> plan ?w2 (Suc (calls ?w2)) = None
      \<and> plan ?w2 (Suc (Suc (calls ?w2)))
          = Some (Fault ''EBUSY'' ''EBUSY: resource busy or locked'' False)"
    by (simp add: example_docs_json empty_fs_def rename_refused_def)
  have u2: "plan ?w2 (Suc (Suc (Suc (calls ?w2)))) = None"
    by (simp add: empty_fs_def rename_refused_def)
  have f1: "files ?w1 ''data/todos.json'' = Some (Json (JArr []))"
    by (simp add: example_fs_def)
  have f2: "files ?w2 ''data/todos.json'' = None"
    by (simp add: empty_fs_def)
  have p: "filePath example_store = ''data/todos.json''"
    by (simp add: example_store_def)
  note A = save_failure_atomic [of example_docs ?w1 "''ENOSPC''"
      "''ENOSPC: no space left on device''" True example_platform example_store]
  note B = save_failure_atomic [of example_docs ?w2 "''EBUSY''"
      "''EBUSY: resource busy or locked''" False example_platform example_store]
  show ?thesis using A B h1 u1 h2 u2 f1 f2 p by simp
qed

text \<open>
  Claim C4 as stated fails when the cleanup fails too: the file system turns read-only
  after the staging write, so the rename is refused, the removal of the staging file is
  refused as well, and the staging file remains.
\<close>

theorem save_failure_leaves_staging_file:
  "fst (StorageService_saveTodos example_platform example_store example_docs
          (example_fs (JArr []) cleanup_refused))
     = Inl (Error ''Failed to save todos: EROFS: read-only file system'')
   \<and> files (snd (StorageService_saveTodos example_platform example_store example_docs
                   (example_fs (JArr []) cleanup_refused))) ''data/todos.json.tmp''
     = Some (Json example_docs)"
  using stringify_json(1) [OF example_docs_json(1), of example_platform] example_docs_json(2)
  by (simp add: StorageService_saveTodos_def fs_mkdir_def fs_writeFile_def fs_rename_def
        fs_unlink_def next_fault_def Let_def example_fs_def example_store_def cleanup_refused_def)

section \<open>Updates and deletions on the file store\<close>

lemma findIndex_map: "findIndex p (map f xs) = findIndex (\<lambda>x. p (f x)) xs"
  by (induction xs) simp_all

lemma decode_id: "todo_id (decode P d) = getprop d (js ''id'')"
  by (simp add: decode_def)

lemma stringify_elems_map:
  "stringify_elems P xs = map (\<lambda>x. case JSON_stringify P x of None \<Rightarrow> JNull | Some y \<Rightarrow> y) xs"
  by (induction xs) simp_all

lemma stored_record_nth:
  "list_all (stored_record P) docs \<Longrightarrow> k < length docs \<Longrightarrow> stored_record P (docs ! k)"
  by (simp add: list_all_length)

lemma storage_getAllTodos_stored:
  assumes "files w (filePath this) = Some (Json (JArr docs))"
    and "list_all (stored_record P) docs"
    and "plan w (calls w) = None"
  shows "getAllTodos P (storageService P this) (w, e) =
           (Inr (map (decode P) docs),
            (w\<lparr>calls := Suc (calls w)\<rparr>, e\<lparr>ticks := ticks e + 2 * length docs\<rparr>))"
  using assms
  by (simp add: getAllTodos_def storageService_def storage_load_existing fromJSON_map_stored)

lemma storage_save_todos_ok:
  assumes "plan w (calls w) = None" "plan w (Suc (calls w)) = None"
        "plan w (Suc (Suc (calls w))) = None"
  shows "saveTodos (storageService P this) (JArr (map toJSON todos)) w =
           (Inr (), w\<lparr>files := ((files w)(filePath this @ ''.tmp'' := None))
                        (filePath this \<mapsto> Json (JArr (stringify_elems P (map toJSON todos)))),
                     calls := Suc (Suc (Suc (calls w)))\<rparr>)"
  using storage_save_ok [OF _ assms, of P "map toJSON todos" _ this]
  by (simp add: storageService_def)

lemma stringify_completed:
  assumes "stored_record P doc"
  shows "JSON_stringify P (toJSON ((decode P doc)\<lparr>completed := b, updatedAt := Some t\<rparr>)) =
           Some (JObj [(js ''id'', getprop doc (js ''id'')),
                       (js ''description'', getprop doc (js ''description'')),
                       (js ''completed'', JBool b),
                       (js ''createdAt'', getprop doc (js ''createdAt'')),
                       (js ''updatedAt'', JStr (toISOString P t))])"
proof -
  from assms obtain i d c ca ua tc tu where
    doc: "doc = JObj [(js ''id'', JStr i), (js ''description'', JStr d), (js ''completed'', JBool c),
                 (js ''createdAt'', JStr ca), (js ''updatedAt'', JStr ua)]"
    and f: "Date_of P (JStr ca) = Some tc" "toISOString P tc = ca"
    by (rule stored_recordE)
  show ?thesis
    unfolding doc toJSON_def decode_def using f by simp
qed

text \<open>
  Claim C6.  On a file store whose file holds records as the service writes them, with no
  file-system failure, \<^verbatim>\<open>updateTodo(id, {completed: true})\<close> for the id of a stored record
  succeeds.  The collection in the file afterwards is the collection before with the first
  record of that id replaced by a record that has the same \<^verbatim>\<open>id\<close>, \<^verbatim>\<open>description\<close> and
  \<^verbatim>\<open>createdAt\<close>, \<^verbatim>\<open>completed\<close> true and \<^verbatim>\<open>updatedAt\<close> the time of the update; every other
  record is unchanged.  The \<open>Todo\<close> returned is the stored one with \<open>completed\<close> and
  \<open>updatedAt\<close> changed, nothing else.
\<close>

theorem update_completed_frame:
  assumes "files w (filePath this) = Some (Json (JArr docs))"
    and "list_all (stored_record P) docs"
    and "i \<noteq> []"
    and "findIndex (\<lambda>d. getprop d (js ''id'') = JStr i) docs = Some k"
    and "plan w (calls w) = None" and "plan w (Suc (calls w)) = None"
    and "plan w (Suc (Suc (calls w))) = None" and "plan w (Suc (Suc (Suc (calls w)))) = None"
  shows "fst (updateTodo P (storageService P this) (JStr i) (JObj [(js ''completed'', JBool True)])
               (w, e))
           = Inr ((decode P (docs ! k))
                    \<lparr>completed := True,
                     updatedAt := Some (clock e (ticks e + 2 * length docs))\<rparr>)
         \<and> files (fst (snd (updateTodo P (storageService P this) (JStr i)
                              (JObj [(js ''completed'', JBool True)]) (w, e)))) (filePath this)
           = Some (Json (JArr (docs[k :=
               JObj [(js ''id'', getprop (docs ! k) (js ''id'')),
                     (js ''description'', getprop (docs ! k) (js ''description'')),
                     (js ''completed'', JBool True),
                     (js ''createdAt'', getprop (docs ! k) (js ''createdAt'')),
                     (js ''updatedAt'',
                      JStr (toISOString P (clock e (ticks e + 2 * length docs))))]])))
         \<and> k < length docs \<and> getprop (docs ! k) (js ''id'') = JStr i"
proof -
  let ?S = "storageService P this"
  let ?todos = "map (decode P) docs"
  let ?w1 = "w\<lparr>calls := Suc (calls w)\<rparr>"
  let ?e1 = "e\<lparr>ticks := ticks e + 2 * length docs\<rparr>"
  let ?now = "clock e (ticks e + 2 * length docs)"
  let ?todo = "(decode P (docs ! k))\<lparr>completed := True, updatedAt := Some ?now\<rparr>"
  let ?up = "JObj [(js ''completed'', JBool True)]"
  have g: "getAllTodos P ?S (w, e) = (Inr ?todos, (?w1, ?e1))"
    using assms(1,2,5) by (rule storage_getAllTodos_stored)
  have k: "k < length docs" "getprop (docs ! k) (js ''id'') = JStr i"
    using findIndex_Some [OF assms(4)] by simp_all
  have f: "findIndex (\<lambda>todo. todo_id todo = JStr i) ?todos = Some k"
    using assms(4) by (simp add: findIndex_map decode_id)
  have nth: "?todos ! k = decode P (docs ! k)"
    using k(1) by simp
  have sc: "setCompleted (JBool True) (decode P (docs ! k)) ?e1
              = (Inr ?todo, ?e1\<lparr>ticks := Suc (ticks ?e1)\<rparr>)"
    by (simp add: setCompleted_def new_Date_def)
  have p: "plan ?w1 (calls ?w1) = None" "plan ?w1 (Suc (calls ?w1)) = None"
      "plan ?w1 (Suc (Suc (calls ?w1))) = None"
    using assms(6,7,8) by simp_all
  have sv: "saveTodos ?S (JArr (map toJSON (?todos[k := ?todo]))) ?w1 =
      (Inr (), ?w1\<lparr>files := ((files ?w1)(filePath this @ ''.tmp'' := None))
                 (filePath this \<mapsto> Json (JArr (stringify_elems P (map toJSON (?todos[k := ?todo]))))),
               calls := Suc (Suc (Suc (calls ?w1)))\<rparr>)"
    using p by (rule storage_save_todos_ok)
  have enc: "stringify_elems P (map toJSON (?todos[k := ?todo])) =
      docs[k := JObj [(js ''id'', getprop (docs ! k) (js ''id'')),
                     (js ''description'', getprop (docs ! k) (js ''description'')),
                     (js ''completed'', JBool True),
                     (js ''createdAt'', getprop (docs ! k) (js ''createdAt'')),
                     (js ''updatedAt'', JStr (toISOString P ?now))]]"
  proof -
    have "stringify_elems P (map toJSON (?todos[k := ?todo]))
        = (stringify_elems P (map toJSON ?todos))
            [k := (case JSON_stringify P (toJSON ?todo) of None \<Rightarrow> JNull | Some y \<Rightarrow> y)]"
      by (simp add: stringify_elems_map map_update)
    also have "stringify_elems P (map toJSON ?todos) = docs"
      using assms(2) by (rule stringify_elems_decode)
    also have "JSON_stringify P (toJSON ?todo) =
        Some (JObj [(js ''id'', getprop (docs ! k) (js ''id'')),
                     (js ''description'', getprop (docs ! k) (js ''description'')),
                     (js ''completed'', JBool True),
                     (js ''createdAt'', getprop (docs ! k) (js ''createdAt'')),
                     (js ''updatedAt'', JStr (toISOString P ?now))])"
      using stored_record_nth [OF assms(2) k(1)] by (rule stringify_completed)
    finally show ?thesis by simp
  qed
  have u: "updateTodo P ?S (JStr i) ?up (w, e) =
      (Inr ?todo, (?w1\<lparr>files := ((files ?w1)(filePath this @ ''.tmp'' := None))
                 (filePath this \<mapsto> Json (JArr (stringify_elems P (map toJSON (?todos[k := ?todo]))))),
               calls := Suc (Suc (Suc (calls ?w1)))\<rparr>, ?e1\<lparr>ticks := Suc (ticks ?e1)\<rparr>))"
    unfolding updateTodo_def using assms(3) g f nth sc sv
    by (simp add: Let_def)
  show ?thesis
    unfolding u using k enc by simp
qed

lemma example_docs_stored:
  "list_all (stored_record example_platform)
     [example_record ''todo-1'' ''Buy milk'' False, example_record ''todo-2'' ''Walk dog'' True]"
  by (simp add: stored_record_def stored_timestamp_def example_platform_def example_record_def)

theorem update_completed_frame_witness:
  "fst (updateTodo example_platform (storageService example_platform example_store)
          (JStr (js ''todo-1'')) (JObj [(js ''completed'', JBool True)])
          (example_fs example_docs no_faults, example_env))
     = Inr \<lparr>todo_id = JStr (js ''todo-1''), description = js ''Buy milk'', completed = True,
            createdAt = Some 1704110400000, updatedAt = Some 1704110460000\<rparr>
   \<and> files (fst (snd (updateTodo example_platform (storageService example_platform example_store)
                        (JStr (js ''todo-1'')) (JObj [(js ''completed'', JBool True)])
                        (example_fs example_docs no_faults, example_env)))) ''data/todos.json''
     = Some (Json (JArr
         [JObj [(js ''id'', JStr (js ''todo-1'')),
                (js ''description'', JStr (js ''Buy milk'')),
                (js ''completed'', JBool True),
                (js ''createdAt'', JStr (js ''2024-01-01T12:00:00.000Z'')),
                (js ''updatedAt'', JStr (js ''2024-01-01T12:01:00.000Z''))],
          example_record ''todo-2'' ''Walk dog'' True]))"
proof -
  let ?docs = "[example_record ''todo-1'' ''Buy milk'' False, example_record ''todo-2'' ''Walk dog'' True]"
  let ?w = "example_fs example_docs no_faults"
  have fl: "files ?w (filePath example_store) = Some (Json (JArr ?docs))"
    by (simp add: example_fs_def example_store_def example_docs_def)
  have i: "js ''todo-1'' \<noteq> []" by simp
  have found: "findIndex (\<lambda>d. getprop d (js ''id'') = JStr (js ''todo-1'')) ?docs = Some 0"
    by (simp add: example_record_def)
  have p: "plan ?w n = None" for n
    by (simp add: example_fs_def no_faults_def)
  note T = update_completed_frame [OF fl example_docs_stored i found p p p p, of example_env]
  have path: "filePath example_store = ''data/todos.json''"
    by (simp add: example_store_def)
  have now: "clock example_env (ticks example_env + 2 * length ?docs) = 1704110460000"
    by (simp add: example_env_def)
  have iso: "toISOString example_platform 1704110460000 = js ''2024-01-01T12:01:00.000Z''"
    by (simp add: example_platform_def)
  have dec: "decode example_platform (?docs ! 0) = example_todo ''todo-1'' ''Buy milk'' False"
    by (simp add: decode_def example_record_def example_todo_def example_platform_def)
  have props: "getprop (?docs ! 0) (js ''id'') = JStr (js ''todo-1'')"
      "getprop (?docs ! 0) (js ''description'') = JStr (js ''Buy milk'')"
      "getprop (?docs ! 0) (js ''createdAt'') = JStr (js ''2024-01-01T12:00:00.000Z'')"
    by (simp_all add: example_record_def)
  have c1: "fst (updateTodo example_platform (storageService example_platform example_store)
          (JStr (js ''todo-1'')) (JObj [(js ''completed'', JBool True)]) (?w, example_env))
     = Inr ((example_todo ''todo-1'' ''Buy milk'' False)
              \<lparr>completed := True, updatedAt := Some 1704110460000\<rparr>)"
    using T unfolding now dec by blast
  have c2: "files (fst (snd (updateTodo example_platform
                        (storageService example_platform example_store)
                        (JStr (js ''todo-1'')) (JObj [(js ''completed'', JBool True)])
                        (?w, example_env)))) ''data/todos.json''
     = Some (Json (JArr (?docs[0 :=
         JObj [(js ''id'', JStr (js ''todo-1'')),
                (js ''description'', JStr (js ''Buy milk'')),
                (js ''completed'', JBool True),
                (js ''createdAt'', JStr (js ''2024-01-01T12:00:00.000Z'')),
                (js ''updatedAt'', JStr (js ''2024-01-01T12:01:00.000Z''))]])))"
    using T unfolding now iso path props by blast
  show ?thesis using c1 c2 by (simp add: example_todo_def)
qed

lemma findIndex_present:
  assumes "a \<in> f ` set xs"
  shows "\<exists>k. findIndex (\<lambda>x. f x = a) xs = Some k"
proof (cases "findIndex (\<lambda>x. f x = a) xs")
  case None
  then have "\<forall>x \<in> set xs. f x \<noteq> a" by (simp add: findIndex_None)
  with assms show ?thesis by auto
next
  case (Some k)
  then show ?thesis by blast
qed

lemma remove_nth_filter:
  "distinct (map f xs) \<Longrightarrow> findIndex (\<lambda>x. f x = a) xs = Some k \<Longrightarrow>
     take k xs @ drop (Suc k) xs = filter (\<lambda>x. f x \<noteq> a) xs"
proof (induction xs arbitrary: k)
  case Nil
  then show ?case by simp
next
  case (Cons x xs)
  show ?case
  proof (cases "f x = a")
    case True
    with Cons.prems have k: "k = 0" and "\<forall>y \<in> set xs. f y \<noteq> a"
      by (auto simp: image_iff)
    then have "filter (\<lambda>x. f x \<noteq> a) xs = xs" by simp
    with True k show ?thesis by simp
  next
    case False
    with Cons.prems obtain k' where k': "findIndex (\<lambda>x. f x = a) xs = Some k'" "k = Suc k'"
      by auto
    from Cons.prems(1) have "distinct (map f xs)" by simp
    from Cons.IH [OF this k'(1)] False k'(2) show ?thesis by simp
  qed
qed

lemma remove_nth_length:
  "findIndex p xs = Some k \<Longrightarrow> Suc (length (take k xs @ drop (Suc k) xs)) = length xs"
  using findIndex_Some [of p xs k] by auto

text \<open>
  Claim C7.  On a file store whose file holds records as the service writes them, with
  pairwise distinct ids and no file-system failure, \<open>deleteTodo\<close> for the id of a stored
  record succeeds and leaves in the file the collection without that record, the others in
  their order.  A second \<open>deleteTodo\<close> with the same id raises ``Todo not found'' and
  leaves every file as it was.
\<close>

theorem delete_twice:
  assumes "files w (filePath this) = Some (Json (JArr docs))"
    and "list_all (stored_record P) docs"
    and "i \<noteq> []"
    and "JStr i \<in> (\<lambda>d. getprop d (js ''id'')) ` set docs"
    and "distinct (map (\<lambda>d. getprop d (js ''id'')) docs)"
    and "plan w (calls w) = None" and "plan w (Suc (calls w)) = None"
    and "plan w (Suc (Suc (calls w))) = None" and "plan w (Suc (Suc (Suc (calls w)))) = None"
    and "plan w (Suc (Suc (Suc (Suc (calls w))))) = None"
  shows "fst (deleteTodo P (storageService P this) (JStr i) (w, e)) = Inr True
         \<and> files (fst (snd (deleteTodo P (storageService P this) (JStr i) (w, e))))
             (filePath this)
           = Some (Json (JArr (filter (\<lambda>d. getprop d (js ''id'') \<noteq> JStr i) docs)))
         \<and> Suc (length (filter (\<lambda>d. getprop d (js ''id'') \<noteq> JStr i) docs)) = length docs
         \<and> fst (deleteTodo P (storageService P this) (JStr i)
                  (snd (deleteTodo P (storageService P this) (JStr i) (w, e))))
           = Inl (Error ''Todo not found'')
         \<and> files (fst (snd (deleteTodo P (storageService P this) (JStr i)
                  (snd (deleteTodo P (storageService P this) (JStr i) (w, e))))))
           = files (fst (snd (deleteTodo P (storageService P this) (JStr i) (w, e))))"
proof -
  let ?S = "storageService P this"
  let ?f = "\<lambda>d. getprop d (js ''id'')"
  let ?todos = "map (decode P) docs"
  let ?rest = "filter (\<lambda>d. ?f d \<noteq> JStr i) docs"
  let ?w1 = "w\<lparr>calls := Suc (calls w)\<rparr>"
  let ?e1 = "e\<lparr>ticks := ticks e + 2 * length docs\<rparr>"
  let ?w2 = "?w1\<lparr>files := ((files ?w1)(filePath this @ ''.tmp'' := None))
                 (filePath this \<mapsto> Json (JArr ?rest)),
               calls := Suc (Suc (Suc (calls ?w1)))\<rparr>"
  from findIndex_present [OF assms(4)] obtain k where
    k: "findIndex (\<lambda>d. ?f d = JStr i) docs = Some k" by blast
  have rest: "take k docs @ drop (Suc k) docs = ?rest"
    using assms(5) k by (rule remove_nth_filter)
  have len: "Suc (length ?rest) = length docs"
    using remove_nth_length [OF k] rest by simp
  have g: "getAllTodos P ?S (w, e) = (Inr ?todos, (?w1, ?e1))"
    using assms(1,2,6) by (rule storage_getAllTodos_stored)
  have f: "findIndex (\<lambda>todo. todo_id todo = JStr i) ?todos = Some k"
    using k by (simp add: findIndex_map decode_id)
  have sub: "list_all (stored_record P) ?rest"
    using assms(2) by (simp add: list_all_iff)
  have td: "take k ?todos @ drop (Suc k) ?todos = map (decode P) ?rest"
    using rest by (simp add: take_map drop_map flip: map_append)
  have p: "plan ?w1 (calls ?w1) = None" "plan ?w1 (Suc (calls ?w1)) = None"
      "plan ?w1 (Suc (Suc (calls ?w1))) = None"
    using assms(7,8,9) by simp_all
  have sv: "saveTodos ?S (JArr (map toJSON (map (decode P) ?rest))) ?w1 = (Inr (), ?w2)"
    using storage_save_todos_ok [OF p, of P this "map (decode P) ?rest"]
      stringify_elems_decode [OF sub]
    by simp
  have d1: "deleteTodo P ?S (JStr i) (w, e) = (Inr True, (?w2, ?e1))"
    unfolding deleteTodo_def using assms(3) g f td sv by simp
  have file2: "files ?w2 (filePath this) = Some (Json (JArr ?rest))" by simp
  have p2: "plan ?w2 (calls ?w2) = None"
    using assms(10) by simp
  have g2: "getAllTodos P ?S (?w2, ?e1) =
      (Inr (map (decode P) ?rest),
       (?w2\<lparr>calls := Suc (calls ?w2)\<rparr>, ?e1\<lparr>ticks := ticks ?e1 + 2 * length ?rest\<rparr>))"
    using file2 sub p2 by (rule storage_getAllTodos_stored)
  have f2: "findIndex (\<lambda>todo. todo_id todo = JStr i) (map (decode P) ?rest) = None"
    by (simp add: findIndex_map decode_id findIndex_None)
  have d2: "deleteTodo P ?S (JStr i) (?w2, ?e1) =
      (Inl (Error ''Todo not found''),
       (?w2\<lparr>calls := Suc (calls ?w2)\<rparr>, ?e1\<lparr>ticks := ticks ?e1 + 2 * length ?rest\<rparr>))"
    unfolding deleteTodo_def using assms(3) g2 f2 by simp
  show ?thesis
    unfolding d1 using d2 len by simp
qed

theorem delete_twice_witness:
  "fst (deleteTodo example_platform (storageService example_platform example_store)
          (JStr (js ''todo-1'')) (example_fs example_docs no_faults, example_env)) = Inr True
   \<and> files (fst (snd (deleteTodo example_platform (storageService example_platform example_store)
                        (JStr (js ''todo-1'')) (example_fs example_docs no_faults, example_env))))
         ''data/todos.json''
     = Some (Json (JArr [example_record ''todo-2'' ''Walk dog'' True]))
   \<and> fst (deleteTodo example_platform (storageService example_platform example_store)
            (JStr (js ''todo-1''))
            (snd (deleteTodo example_platform (storageService example_platform example_store)
                    (JStr (js ''todo-1'')) (example_fs example_docs no_faults, example_env))))
     = Inl (Error ''Todo not found'')
   \<and> files (fst (snd (deleteTodo example_platform (storageService example_platform example_store)
            (JStr (js ''todo-1''))
            (snd (deleteTodo example_platform (storageService example_platform example_store)
                    (JStr (js ''todo-1'')) (example_fs example_docs no_faults, example_env))))))
         ''data/todos.json''
     = Some (Json (JArr [example_record ''todo-2'' ''Walk dog'' True]))"
proof -
  let ?docs = "[example_record ''todo-1'' ''Buy milk'' False, example_record ''todo-2'' ''Walk dog'' True]"
  let ?w = "example_fs example_docs no_faults"
  have fl: "files ?w (filePath example_store) = Some (Json (JArr ?docs))"
    by (simp add: example_fs_def example_store_def example_docs_def)
  have i: "js ''todo-1'' \<noteq> []" by simp
  have present: "JStr (js ''todo-1'') \<in> (\<lambda>d. getprop d (js ''id'')) ` set ?docs"
    by (simp add: example_record_def)
  have dist: "distinct (map (\<lambda>d. getprop d (js ''id'')) ?docs)"
    by (simp add: example_record_def)
  have p: "plan ?w n = None" for n
    by (simp add: example_fs_def no_faults_def)
  have path: "filePath example_store = ''data/todos.json''"
    by (simp add: example_store_def)
  have rest: "filter (\<lambda>d. getprop d (js ''id'') \<noteq> JStr (js ''todo-1'')) ?docs
      = [example_record ''todo-2'' ''Walk dog'' True]"
    by (simp add: example_record_def)
  note T = delete_twice [OF fl example_docs_stored i present dist p p p p p, of example_env]
  show ?thesis using T unfolding rest path by simp
qed

section \<open>Stored descriptions\<close>

lemma storage_save_Inr:
  assumes "StorageService_saveTodos P this (JArr xs) w = (Inr u, w')"
  shows "files w' (filePath this) = Some (Json (JArr (stringify_elems P xs)))"
  using assms
  by (auto simp: StorageService_saveTodos_def fs_mkdir_def fs_writeFile_def fs_rename_def
        next_fault_def Let_def
      split: option.splits fault.splits if_splits prod.splits sum.splits)

lemma stringify_toJSON_description:
  "getprop (case JSON_stringify P (toJSON t) of None \<Rightarrow> JNull | Some y \<Rightarrow> y) (js ''description'')
     = JStr (description t)"
  by (simp add: toJSON_def split: option.splits)

lemma stringify_toJSON_id:
  "todo_id t = JStr i \<Longrightarrow>
   getprop (case JSON_stringify P (toJSON t) of None \<Rightarrow> JNull | Some y \<Rightarrow> y) (js ''id'') = JStr i"
  by (simp add: toJSON_def)

lemma updateDescription_id:
  assumes "updateDescription v todo e = (Inr todo1, e')"
  shows "todo_id todo1 = todo_id todo"
  using assms
  by (cases "validateDescription v") (auto simp: updateDescription_def new_Date_def)

lemma setCompleted_id:
  assumes "setCompleted v todo e = (Inr todo1, e')"
  shows "todo_id todo1 = todo_id todo"
  using assms by (cases v) (auto simp: setCompleted_def new_Date_def)

lemma createTodo_file:
  assumes "createTodo P (storageService P this) descr (w, e) = (Inr todo, st')"
  shows "\<exists>docs. files (fst st') (filePath this) = Some (Json (JArr docs)) \<and> docs \<noteq> []
           \<and> getprop (last docs) (js ''description'') = JStr (description todo)"
proof -
  from createTodo_Inr [OF assms] obtain e1 todos st1 u where
    sv: "saveTodos (storageService P this) (JArr (map toJSON (todos @ [todo]))) (fst st1)
           = (Inr u, fst st')"
    by auto
  then have "StorageService_saveTodos P this (JArr (map toJSON (todos @ [todo]))) (fst st1)
           = (Inr u, fst st')"
    by (simp add: storageService_def)
  from storage_save_Inr [OF this]
  have f: "files (fst st') (filePath this)
      = Some (Json (JArr (stringify_elems P (map toJSON (todos @ [todo])))))" .
  have l: "last (stringify_elems P (map toJSON (todos @ [todo])))
      = (case JSON_stringify P (toJSON todo) of None \<Rightarrow> JNull | Some y \<Rightarrow> y)"
    by (simp add: stringify_elems_map)
  have n: "stringify_elems P (map toJSON (todos @ [todo])) \<noteq> []"
    by (simp add: stringify_elems_map)
  show ?thesis
    using f n l stringify_toJSON_description [of P todo] by simp
qed

lemma updateTodo_file:
  assumes "updateTodo P (storageService P this) ident updates (w, e) = (Inr todo, st')"
  shows "\<exists>docs k. files (fst st') (filePath this) = Some (Json (JArr docs)) \<and> k < length docs
           \<and> getprop (docs ! k) (js ''id'') = ident
           \<and> getprop (docs ! k) (js ''description'') = JStr (description todo)"
proof -
  from updateTodo_Inr [OF assms] obtain todos st1 k todo1 e2 u where
    f: "findIndex (\<lambda>t. todo_id t = ident) todos = Some k"
    and d: "(if getprop updates (js ''description'') \<noteq> JUndefined
               then updateDescription (getprop updates (js ''description'')) (todos ! k) (snd st1)
               else (Inr (todos ! k), snd st1)) = (Inr todo1, e2)"
    and c: "(if getprop updates (js ''completed'') \<noteq> JUndefined
               then setCompleted (getprop updates (js ''completed'')) todo1 e2
               else (Inr todo1, e2)) = (Inr todo, snd st')"
    and sv: "saveTodos (storageService P this) (JArr (map toJSON (todos[k := todo]))) (fst st1)
           = (Inr u, fst st')"
    by blast
  have k: "k < length todos" "todo_id (todos ! k) = ident"
    using findIndex_Some [OF f] by simp_all
  have "todo_id todo1 = todo_id (todos ! k)"
    using d updateDescription_id by (auto split: if_splits)
  moreover have "todo_id todo = todo_id todo1"
    using c setCompleted_id by (auto split: if_splits)
  ultimately have tid: "todo_id todo = ident" using k(2) by simp
  from assms obtain i where i: "ident = JStr i"
    by (cases ident) (auto simp: updateTodo_def split: if_splits)
  from sv have "StorageService_saveTodos P this (JArr (map toJSON (todos[k := todo]))) (fst st1)
           = (Inr u, fst st')"
    by (simp add: storageService_def)
  from storage_save_Inr [OF this]
  have fl: "files (fst st') (filePath this)
      = Some (Json (JArr (stringify_elems P (map toJSON (todos[k := todo])))))" .
  have nth: "stringify_elems P (map toJSON (todos[k := todo])) ! k
      = (case JSON_stringify P (toJSON todo) of None \<Rightarrow> JNull | Some y \<Rightarrow> y)"
    using k(1) by (simp add: stringify_elems_map)
  have len: "k < length (stringify_elems P (map toJSON (todos[k := todo])))"
    using k(1) by (simp add: stringify_elems_map)
  show ?thesis
    using fl len nth stringify_toJSON_description [of P todo]
      stringify_toJSON_id [of todo i P] tid i
    by auto
qed

text \<open>
  Claim C9.  When \<open>createTodo\<close> succeeds, its argument is a string and the description of
  the record it returns, which is the last record of the collection it hands to the store, is
  that string trimmed.  When \<open>updateTodo\<close> succeeds with a \<^verbatim>\<open>description\<close> field, the
  field is a string and the record returned and written has that string trimmed as its
  description.  Every record of the collection handed to the store, and every record
  \<open>getAllTodos\<close> returns, has a description equal to its own trimmed form.  On the file
  store, the file afterwards holds a collection whose last record (after a creation), or
  whose record of the given id (after an update), has the trimmed string as its description.
\<close>

theorem description_stored_trimmed:
  "(createTodo P S descr st = (Inr todo, st') \<longrightarrow>
      (\<exists>s todos st1 e1.
          descr = JStr s \<and> description todo = trim s
          \<and> getprop (toJSON todo) (js ''description'') = JStr (trim s)
          \<and> new_Todo descr JNull (snd st) = (Inr todo, e1)
          \<and> getAllTodos P S (fst st, e1) = (Inr todos, st1)
          \<and> saveTodos S (JArr (map toJSON (todos @ [todo]))) (fst st1) = (Inr (), fst st')
          \<and> (\<forall>t \<in> set (todos @ [todo]). trim (description t) = description t)))
   \<and> (updateTodo P S ident updates st = (Inr todo, st')
        \<and> getprop updates (js ''description'') \<noteq> JUndefined \<longrightarrow>
      (\<exists>s todos st1 k.
          getprop updates (js ''description'') = JStr s \<and> description todo = trim s
          \<and> getprop (toJSON todo) (js ''description'') = JStr (trim s)
          \<and> getAllTodos P S st = (Inr todos, st1)
          \<and> findIndex (\<lambda>t. todo_id t = ident) todos = Some k
          \<and> saveTodos S (JArr (map toJSON (todos[k := todo]))) (fst st1) = (Inr (), fst st')
          \<and> (\<forall>t \<in> set (todos[k := todo]). trim (description t) = description t)))
   \<and> (getAllTodos P S st = (Inr todos, st') \<longrightarrow>
        (\<forall>t \<in> set todos. trim (description t) = description t))
   \<and> (createTodo P (storageService P this) (JStr s) (w, e) = (Inr created, stc) \<longrightarrow>
        description created = trim s
        \<and> (\<exists>docs. files (fst stc) (filePath this) = Some (Json (JArr docs)) \<and> docs \<noteq> []
               \<and> getprop (last docs) (js ''description'') = JStr (trim s)))
   \<and> (updateTodo P (storageService P this) ident (JObj [(js ''description'', JStr s)]) (w, e)
          = (Inr updated, stu) \<longrightarrow>
        description updated = trim s
        \<and> (\<exists>docs k. files (fst stu) (filePath this) = Some (Json (JArr docs))
               \<and> k < length docs \<and> getprop (docs ! k) (js ''id'') = ident
               \<and> getprop (docs ! k) (js ''description'') = JStr (trim s)))"
proof -
  have create: "createTodo P S descr st = (Inr todo, st') \<longrightarrow>
      (\<exists>s todos st1 e1.
          descr = JStr s \<and> description todo = trim s
          \<and> getprop (toJSON todo) (js ''description'') = JStr (trim s)
          \<and> new_Todo descr JNull (snd st) = (Inr todo, e1)
          \<and> getAllTodos P S (fst st, e1) = (Inr todos, st1)
          \<and> saveTodos S (JArr (map toJSON (todos @ [todo]))) (fst st1) = (Inr (), fst st')
          \<and> (\<forall>t \<in> set (todos @ [todo]). trim (description t) = description t))"
  proof
    assume "createTodo P S descr st = (Inr todo, st')"
    then obtain e1 todos st1 u where
      n: "new_Todo descr JNull (snd st) = (Inr todo, e1)"
      and g: "getAllTodos P S (fst st, e1) = (Inr todos, st1)"
      and sv: "saveTodos S (JArr (map toJSON (todos @ [todo]))) (fst st1) = (Inr u, fst st')"
      using createTodo_Inr by blast
    from new_Todo_description [OF n] obtain s where
      s: "descr = JStr s" "description todo = trim s" by blast
    have j: "getprop (toJSON todo) (js ''description'') = JStr (trim s)"
      using s by (simp add: toJSON_def)
    have all: "\<forall>t \<in> set (todos @ [todo]). trim (description t) = description t"
      using getAllTodos_description [OF g] s by (auto simp: trim_idem)
    show "\<exists>s todos st1 e1.
          descr = JStr s \<and> description todo = trim s
          \<and> getprop (toJSON todo) (js ''description'') = JStr (trim s)
          \<and> new_Todo descr JNull (snd st) = (Inr todo, e1)
          \<and> getAllTodos P S (fst st, e1) = (Inr todos, st1)
          \<and> saveTodos S (JArr (map toJSON (todos @ [todo]))) (fst st1) = (Inr (), fst st')
          \<and> (\<forall>t \<in> set (todos @ [todo]). trim (description t) = description t)"
      using s j n g sv all by (intro exI [of _ s] exI [of _ todos] exI [of _ st1] exI [of _ e1]) simp
  qed
  have update: "updateTodo P S ident updates st = (Inr todo, st')
        \<and> getprop updates (js ''description'') \<noteq> JUndefined \<longrightarrow>
      (\<exists>s todos st1 k.
          getprop updates (js ''description'') = JStr s \<and> description todo = trim s
          \<and> getprop (toJSON todo) (js ''description'') = JStr (trim s)
          \<and> getAllTodos P S st = (Inr todos, st1)
          \<and> findIndex (\<lambda>t. todo_id t = ident) todos = Some k
          \<and> saveTodos S (JArr (map toJSON (todos[k := todo]))) (fst st1) = (Inr (), fst st')
          \<and> (\<forall>t \<in> set (todos[k := todo]). trim (description t) = description t))"
  proof
    assume a: "updateTodo P S ident updates st = (Inr todo, st')
        \<and> getprop updates (js ''description'') \<noteq> JUndefined"
    then obtain todos st1 k todo1 e2 u where
      g: "getAllTodos P S st = (Inr todos, st1)"
      and f: "findIndex (\<lambda>t. todo_id t = ident) todos = Some k"
      and d: "updateDescription (getprop updates (js ''description'')) (todos ! k) (snd st1)
                = (Inr todo1, e2)"
      and c: "(if getprop updates (js ''completed'') \<noteq> JUndefined
               then setCompleted (getprop updates (js ''completed'')) todo1 e2
               else (Inr todo1, e2)) = (Inr todo, snd st')"
      and sv: "saveTodos S (JArr (map toJSON (todos[k := todo]))) (fst st1) = (Inr u, fst st')"
      using updateTodo_Inr [of P S ident updates st todo st'] by auto
    from updateDescription_Inr [OF d] obtain s where
      s: "getprop updates (js ''description'') = JStr s" "description todo1 = trim s" by blast
    have "description todo = description todo1"
      using c setCompleted_description by (auto split: if_splits)
    with s have dt: "description todo = trim s" by simp
    have j: "getprop (toJSON todo) (js ''description'') = JStr (trim s)"
      using dt by (simp add: toJSON_def)
    have all: "\<forall>t \<in> set (todos[k := todo]). trim (description t) = description t"
      using getAllTodos_description [OF g] dt set_list_update_subset [of todos k todo]
      by (auto simp: trim_idem)
    show "\<exists>s todos st1 k.
          getprop updates (js ''description'') = JStr s \<and> description todo = trim s
          \<and> getprop (toJSON todo) (js ''description'') = JStr (trim s)
          \<and> getAllTodos P S st = (Inr todos, st1)
          \<and> findIndex (\<lambda>t. todo_id t = ident) todos = Some k
          \<and> saveTodos S (JArr (map toJSON (todos[k := todo]))) (fst st1) = (Inr (), fst st')
          \<and> (\<forall>t \<in> set (todos[k := todo]). trim (description t) = description t)"
      using s dt j g f sv all by (intro exI [of _ s] exI [of _ todos] exI [of _ st1] exI [of _ k]) simp
  qed
  have get: "getAllTodos P S st = (Inr todos, st') \<longrightarrow>
        (\<forall>t \<in> set todos. trim (description t) = description t)"
    using getAllTodos_description by blast
  have create_file: "createTodo P (storageService P this) (JStr s) (w, e) = (Inr created, stc) \<longrightarrow>
        description created = trim s
        \<and> (\<exists>docs. files (fst stc) (filePath this) = Some (Json (JArr docs)) \<and> docs \<noteq> []
               \<and> getprop (last docs) (js ''description'') = JStr (trim s))"
  proof
    assume a: "createTodo P (storageService P this) (JStr s) (w, e) = (Inr created, stc)"
    from createTodo_Inr [OF a] obtain e1 where
      "new_Todo (JStr s) JNull (snd (w, e)) = (Inr created, e1)" by blast
    from new_Todo_description [OF this] have d: "description created = trim s" by simp
    with createTodo_file [OF a] show "description created = trim s
        \<and> (\<exists>docs. files (fst stc) (filePath this) = Some (Json (JArr docs)) \<and> docs \<noteq> []
               \<and> getprop (last docs) (js ''description'') = JStr (trim s))"
      by simp
  qed
  have update_file: "updateTodo P (storageService P this) ident (JObj [(js ''description'', JStr s)]) (w, e)
          = (Inr updated, stu) \<longrightarrow>
        description updated = trim s
        \<and> (\<exists>docs k. files (fst stu) (filePath this) = Some (Json (JArr docs))
               \<and> k < length docs \<and> getprop (docs ! k) (js ''id'') = ident
               \<and> getprop (docs ! k) (js ''description'') = JStr (trim s))"
  proof
    let ?up = "JObj [(js ''description'', JStr s)]"
    assume a: "updateTodo P (storageService P this) ident ?up (w, e) = (Inr updated, stu)"
    from updateTodo_Inr [OF a] obtain todos st1 k todo1 e2 where
      d: "updateDescription (JStr s) (todos ! k) (snd st1) = (Inr todo1, e2)"
      and c: "(Inr todo1, e2) = (Inr updated, snd stu)"
      by auto
    from updateDescription_Inr [OF d] c have d: "description updated = trim s" by simp
    with updateTodo_file [OF a] show "description updated = trim s
        \<and> (\<exists>docs k. files (fst stu) (filePath this) = Some (Json (JArr docs))
               \<and> k < length docs \<and> getprop (docs ! k) (js ''id'') = ident
               \<and> getprop (docs ! k) (js ''description'') = JStr (trim s))"
      by simp
  qed
  show ?thesis using create update get create_file update_file by blast
qed


theorem description_stored_trimmed_witness:
  "fst (createTodo example_platform (storageService example_platform example_store)
          (JStr (js ''  Buy milk '')) (example_fs (JArr []) no_faults, example_env))
     = Inr \<lparr>todo_id = JStr (js ''a1b2c3d4-0000-4000-8000-000000000000''),
            description = js ''Buy milk'', completed = False,
            createdAt = Some 1704110460000, updatedAt = Some 1704110460000\<rparr>
   \<and> js ''Buy milk'' = trim (js ''  Buy milk '')
   \<and> fst (updateTodo example_platform (storageService example_platform example_store)
            (JStr (js ''todo-2'')) (JObj [(js ''description'', JStr (js '' Walk the dog  ''))])
            (example_fs example_docs no_faults, example_env))
     = Inr \<lparr>todo_id = JStr (js ''todo-2''), description = js ''Walk the dog'', completed = True,
            createdAt = Some 1704110400000, updatedAt = Some 1704110460000\<rparr>
   \<and> js ''Walk the dog'' = trim (js '' Walk the dog  '')
   \<and> fst (getAllTodos example_platform (storageService example_platform example_store)
            (example_fs example_docs no_faults, example_env))
     = Inr [example_todo ''todo-1'' ''Buy milk'' False, example_todo ''todo-2'' ''Walk dog'' True]
   \<and> trim (js ''Walk dog'') = js ''Walk dog''
   \<and> (\<exists>docs. files (fst (snd (createTodo example_platform
                  (storageService example_platform example_store)
                  (JStr (js ''  Buy milk '')) (example_fs (JArr []) no_faults, example_env))))
             ''data/todos.json'' = Some (Json (JArr docs))
          \<and> getprop (last docs) (js ''description'') = JStr (js ''Buy milk''))
   \<and> (\<exists>docs k. files (fst (snd (updateTodo example_platform
                  (storageService example_platform example_store) (JStr (js ''todo-2''))
                  (JObj [(js ''description'', JStr (js '' Walk the dog  ''))])
                  (example_fs example_docs no_faults, example_env))))
             ''data/todos.json'' = Some (Json (JArr docs))
          \<and> getprop (docs ! k) (js ''id'') = JStr (js ''todo-2'')
          \<and> getprop (docs ! k) (js ''description'') = JStr (js ''Walk the dog''))"
proof -
  let ?P = example_platform
  let ?S = "storageService example_platform example_store"
  let ?d = "JStr (js ''  Buy milk '')"
  let ?empty = "(example_fs (JArr []) no_faults, example_env)"
  let ?st = "(example_fs example_docs no_faults, example_env)"
  let ?T = "\<lparr>todo_id = JStr (js ''a1b2c3d4-0000-4000-8000-000000000000''),
            description = js ''Buy milk'', completed = False,
            createdAt = Some 1704110460000, updatedAt = Some 1704110460000\<rparr>"
  let ?id = "JStr (js ''todo-2'')"
  let ?up = "JObj [(js ''description'', JStr (js '' Walk the dog  ''))]"
  let ?U = "\<lparr>todo_id = JStr (js ''todo-2''), description = js ''Walk the dog'', completed = True,
            createdAt = Some 1704110400000, updatedAt = Some 1704110460000\<rparr>"
  let ?todos = "[example_todo ''todo-1'' ''Buy milk'' False, example_todo ''todo-2'' ''Walk dog'' True]"
  have c0: "fst (createTodo ?P ?S ?d ?empty) = Inr ?T"
    by (simp add: service_defs storage_defs example_defs)
  have u0: "fst (updateTodo ?P ?S ?id ?up ?st) = Inr ?U"
    by (simp add: service_defs storage_defs example_defs example_defs2)
  have g0: "fst (getAllTodos ?P ?S ?st) = Inr ?todos"
    by (simp add: service_defs storage_defs example_defs example_defs2)
  have c: "createTodo ?P ?S ?d ?empty = (Inr ?T, snd (createTodo ?P ?S ?d ?empty))"
    using c0 by (rule pair_sndI)
  have u: "updateTodo ?P ?S ?id ?up ?st = (Inr ?U, snd (updateTodo ?P ?S ?id ?up ?st))"
    using u0 by (rule pair_sndI)
  have g: "getAllTodos ?P ?S ?st = (Inr ?todos, snd (getAllTodos ?P ?S ?st))"
    using g0 by (rule pair_sndI)
  have un: "getprop ?up (js ''description'') \<noteq> JUndefined" by simp
  have c1: "description ?T = trim (js ''  Buy milk '')"
    using description_stored_trimmed [of ?P ?S ?d ?empty ?T "snd (createTodo ?P ?S ?d ?empty)"] c
    by auto
  have path: "filePath example_store = ''data/todos.json''"
    by (simp add: example_store_def)
  have c2: "\<exists>docs. files (fst (snd (createTodo ?P ?S ?d ?empty))) ''data/todos.json''
                = Some (Json (JArr docs))
          \<and> getprop (last docs) (js ''description'') = JStr (js ''Buy milk'')"
  proof -
    have "\<exists>docs. files (fst (snd (createTodo ?P ?S ?d ?empty))) (filePath example_store)
                = Some (Json (JArr docs)) \<and> docs \<noteq> []
          \<and> getprop (last docs) (js ''description'') = JStr (trim (js ''  Buy milk ''))"
      using description_stored_trimmed [of ?P ?S ?d ?empty ?T "snd (createTodo ?P ?S ?d ?empty)"
          ?id ?up ?todos example_store "js ''  Buy milk ''" "example_fs (JArr []) no_faults"
          example_env ?T "snd (createTodo ?P ?S ?d ?empty)" ?U
          "snd (updateTodo ?P ?S ?id ?up ?st)"] c
      by blast
    then show ?thesis unfolding path trim_padded_Buy_milk by blast
  qed
  have u2: "\<exists>docs k. files (fst (snd (updateTodo ?P ?S ?id ?up ?st))) ''data/todos.json''
                = Some (Json (JArr docs))
          \<and> getprop (docs ! k) (js ''id'') = JStr (js ''todo-2'')
          \<and> getprop (docs ! k) (js ''description'') = JStr (js ''Walk the dog'')"
  proof -
    have "\<exists>docs k. files (fst (snd (updateTodo ?P ?S ?id ?up ?st))) (filePath example_store)
                = Some (Json (JArr docs)) \<and> k < length docs
          \<and> getprop (docs ! k) (js ''id'') = ?id
          \<and> getprop (docs ! k) (js ''description'') = JStr (trim (js '' Walk the dog  ''))"
      using description_stored_trimmed [of ?P ?S ?d ?empty ?T "snd (createTodo ?P ?S ?d ?empty)"
          ?id ?up ?todos example_store "js '' Walk the dog  ''" "example_fs example_docs no_faults"
          example_env ?T "snd (createTodo ?P ?S ?d ?empty)" ?U
          "snd (updateTodo ?P ?S ?id ?up ?st)"] u
      by blast
    then show ?thesis unfolding path trim_padded_Walk_dog by blast
  qed
  have u1: "description ?U = trim (js '' Walk the dog  '')"
    using description_stored_trimmed [of ?P ?S _ ?st ?U
        "snd (updateTodo ?P ?S ?id ?up ?st)" ?id ?up] u un
    by auto
  have g1: "\<forall>t \<in> set ?todos. trim (description t) = description t"
    using description_stored_trimmed [of ?P ?S _ ?st _ "snd (getAllTodos ?P ?S ?st)" _ _
        ?todos] g
    by blast
  have g2: "trim (js ''Walk dog'') = js ''Walk dog''"
    using g1 by (simp add: example_defs2)
  show ?thesis using c0 u0 g0 c1 u1 g2 c2 u2 by simp
qed

section \<open>Saving and loading a collection\<close>

lemma length_stringify_props: "length (stringify_props P kvs) \<le> length kvs"
proof (induction kvs)
  case Nil
  then show ?case by simp
next
  case (Cons kv kvs)
  obtain k v where kv: "kv = (k, v)" by (cases kv)
  show ?case using Cons unfolding kv by (cases "JSON_stringify P v") simp_all
qed

lemma stringify_fixed:
  "JSON_stringify P v = Some v \<Longrightarrow> json_value v"
  "stringify_elems P xs = xs \<Longrightarrow> json_elems xs"
  "stringify_props P kvs = kvs \<Longrightarrow> json_props kvs"
proof (induction P v and P xs and P kvs
    rule: JSON_stringify_stringify_elems_stringify_props.induct)
  case (10 P d)
  then show ?case by (cases d) simp_all
next
  case (14 P x xs)
  from "14.prems" have h: "(case JSON_stringify P x of None \<Rightarrow> JNull | Some y \<Rightarrow> y) = x"
    and t: "stringify_elems P xs = xs" by simp_all
  have "JSON_stringify P x = Some x"
  proof (cases "JSON_stringify P x")
    case None
    with h have "x = JNull" by simp
    with None show ?thesis by simp
  next
    case (Some y)
    with h show ?thesis by simp
  qed
  with "14.IH" t show ?case by simp
next
  case (16 P k v kvs)
  show ?case
  proof (cases "JSON_stringify P v")
    case None
    with "16.prems" have "stringify_props P kvs = (k, v) # kvs" by simp
    then have "length (stringify_props P kvs) = Suc (length kvs)" by simp
    with length_stringify_props [of P kvs] show ?thesis by simp
  next
    case (Some y)
    with "16.prems" have "y = v" "stringify_props P kvs = kvs" by simp_all
    with Some "16.IH" show ?thesis by simp
  qed
qed simp_all

lemma stringify_fixed_iff: "JSON_stringify P v = Some v \<longleftrightarrow> json_value v"
  using stringify_fixed(1) stringify_json(1) by blast

lemma storage_save_load:
  assumes "plan w (calls w) = None" "plan w (Suc (calls w)) = None"
    "plan w (Suc (Suc (calls w))) = None" "plan w (Suc (Suc (Suc (calls w)))) = None"
  shows "fst (StorageService_saveTodos P this (JArr xs) w) = Inr ()"
    and "fst (StorageService_loadTodos P this (snd (StorageService_saveTodos P this (JArr xs) w)))
           = Inr (JArr (stringify_elems P xs))"
proof -
  have s: "JSON_stringify P (JArr xs) = Some (JArr (stringify_elems P xs))" by simp
  have sv: "StorageService_saveTodos P this (JArr xs) w =
           (Inr (), w\<lparr>files := ((files w)(filePath this @ ''.tmp'' := None))
                               (filePath this \<mapsto> Json (JArr (stringify_elems P xs))),
                     calls := Suc (Suc (Suc (calls w)))\<rparr>)"
    using s assms(1,2,3) by (rule storage_save_ok)
  show "fst (StorageService_saveTodos P this (JArr xs) w) = Inr ()"
    unfolding sv by simp
  show "fst (StorageService_loadTodos P this (snd (StorageService_saveTodos P this (JArr xs) w)))
           = Inr (JArr (stringify_elems P xs))"
    unfolding sv using assms(4) by (simp add: storage_load_existing)
qed

text \<open>
  Claim C5, as the code has it.  For every array \<open>C\<close>, when no file-system call fails,
  \<open>saveTodos C\<close> succeeds and the \<open>loadTodos\<close> that follows returns what
  \<^verbatim>\<open>JSON.stringify\<close> writes for \<open>C\<close>, element by element in the same order.  That is \<open>C\<close>
  itself exactly when \<open>C\<close> holds no date object, no \<^verbatim>\<open>undefined\<close> and no number among
  \<open>-0\<close>, \<^verbatim>\<open>NaN\<close> and the infinities.  The collection the service saves, the \<open>toJSON\<close>
  objects of its records with their date fields, comes back as the records of the persisted
  layout, with the dates as ISO text.
\<close>

theorem save_load_serialised:
  assumes "isArray C"
    and "plan w (calls w) = None" and "plan w (Suc (calls w)) = None"
    and "plan w (Suc (Suc (calls w))) = None" and "plan w (Suc (Suc (Suc (calls w)))) = None"
  shows "fst (StorageService_saveTodos P this C w) = Inr ()
         \<and> (\<exists>xs. C = JArr xs
               \<and> fst (StorageService_loadTodos P this
                        (snd (StorageService_saveTodos P this C w)))
                   = Inr (JArr (stringify_elems P xs)))
         \<and> (fst (StorageService_loadTodos P this (snd (StorageService_saveTodos P this C w)))
               = Inr C \<longleftrightarrow> json_value C)
         \<and> (\<forall>docs. C = JArr (map toJSON (map (decode P) docs))
               \<and> list_all (stored_record P) docs \<longrightarrow>
               fst (StorageService_loadTodos P this
                      (snd (StorageService_saveTodos P this C w)))
                 = Inr (JArr docs))"
proof -
  from assms(1) obtain xs where xs: "C = JArr xs" by (cases C) simp_all
  note sl = storage_save_load [OF assms(2,3,4,5), of P this xs]
  have a: "fst (StorageService_saveTodos P this C w) = Inr ()"
    using sl(1) xs by simp
  have b: "fst (StorageService_loadTodos P this (snd (StorageService_saveTodos P this C w)))
      = Inr (JArr (stringify_elems P xs))"
    using sl(2) xs by simp
  have c: "fst (StorageService_loadTodos P this (snd (StorageService_saveTodos P this C w)))
               = Inr C \<longleftrightarrow> json_value C"
    unfolding b using stringify_fixed_iff [of P C] xs by simp
  have d: "\<forall>docs. C = JArr (map toJSON (map (decode P) docs))
               \<and> list_all (stored_record P) docs \<longrightarrow>
               fst (StorageService_loadTodos P this
                      (snd (StorageService_saveTodos P this C w)))
                 = Inr (JArr docs)"
    unfolding b using xs stringify_elems_decode by auto
  show ?thesis using a b c d xs by blast
qed

lemma example_decode:
  "decode example_platform (example_record i d c) = example_todo i d c"
  by (simp add: decode_def example_record_def example_todo_def example_platform_def)

theorem save_load_serialised_witness:
  "isArray example_docs \<and> json_value example_docs
   \<and> fst (StorageService_saveTodos example_platform example_store example_docs
            (empty_fs no_faults)) = Inr ()
   \<and> fst (StorageService_loadTodos example_platform example_store
            (snd (StorageService_saveTodos example_platform example_store example_docs
                    (empty_fs no_faults))))
     = Inr example_docs
   \<and> isArray (JArr [toJSON (example_todo ''todo-1'' ''Buy milk'' False),
                     toJSON (example_todo ''todo-2'' ''Walk dog'' True)])
   \<and> fst (StorageService_loadTodos example_platform example_store
            (snd (StorageService_saveTodos example_platform example_store
                    (JArr [toJSON (example_todo ''todo-1'' ''Buy milk'' False),
                           toJSON (example_todo ''todo-2'' ''Walk dog'' True)])
                    (empty_fs no_faults))))
     = Inr example_docs"
proof -
  let ?docs = "[example_record ''todo-1'' ''Buy milk'' False, example_record ''todo-2'' ''Walk dog'' True]"
  let ?C = "JArr [toJSON (example_todo ''todo-1'' ''Buy milk'' False),
                  toJSON (example_todo ''todo-2'' ''Walk dog'' True)]"
  have p: "plan (empty_fs no_faults) n = None" for n
    by (simp add: empty_fs_def no_faults_def)
  have arr: "isArray ?C" by simp
  have C: "?C = JArr (map toJSON (map (decode example_platform) ?docs))"
    by (simp add: example_decode)
  have docs: "JArr ?docs = example_docs"
    by (simp add: example_docs_def)
  have c1: "fst (StorageService_loadTodos example_platform example_store
            (snd (StorageService_saveTodos example_platform example_store example_docs
                    (empty_fs no_faults)))) = Inr example_docs"
    using save_load_serialised [OF example_docs_json(2) p p p p, of example_platform example_store]
      example_docs_json(1)
    by blast
  have c2: "fst (StorageService_saveTodos example_platform example_store example_docs
            (empty_fs no_faults)) = Inr ()"
    using save_load_serialised [OF example_docs_json(2) p p p p, of example_platform example_store]
    by blast
  have c3: "fst (StorageService_loadTodos example_platform example_store
            (snd (StorageService_saveTodos example_platform example_store ?C
                    (empty_fs no_faults)))) = Inr (JArr ?docs)"
    by (rule save_load_serialised [OF arr p p p p, of example_platform example_store,
          THEN conjunct2, THEN conjunct2, THEN conjunct2, THEN spec, THEN mp,
          OF conjI [OF C example_docs_stored]])
  show ?thesis using c1 c2 c3 arr example_docs_json unfolding docs by blast
qed

text \<open>
  Claim C5 as stated fails for the collections the service saves: a record's \<open>toJSON\<close>
  object holds date objects, the file holds their ISO text, and \<open>loadTodos\<close> returns the
  text, not the object that was saved.
\<close>

theorem save_load_dates_become_text:
  "fst (StorageService_saveTodos example_platform example_store
          (JArr [toJSON (example_todo ''todo-1'' ''Buy milk'' False)]) (empty_fs no_faults))
     = Inr ()
   \<and> fst (StorageService_loadTodos example_platform example_store
            (snd (StorageService_saveTodos example_platform example_store
                    (JArr [toJSON (example_todo ''todo-1'' ''Buy milk'' False)])
                    (empty_fs no_faults))))
     = Inr (JArr [example_record ''todo-1'' ''Buy milk'' False])
   \<and> JArr [example_record ''todo-1'' ''Buy milk'' False]
     \<noteq> JArr [toJSON (example_todo ''todo-1'' ''Buy milk'' False)]"
proof -
  have p: "plan (empty_fs no_faults) n = None" for n
    by (simp add: empty_fs_def no_faults_def)
  have s: "stringify_elems example_platform [toJSON (example_todo ''todo-1'' ''Buy milk'' False)]
      = [example_record ''todo-1'' ''Buy milk'' False]"
    by (simp add: toJSON_def example_todo_def example_record_def example_platform_def)
  have n: "JArr [example_record ''todo-1'' ''Buy milk'' False]
     \<noteq> JArr [toJSON (example_todo ''todo-1'' ''Buy milk'' False)]"
    by (simp add: toJSON_def example_todo_def example_record_def)
  show ?thesis
    using storage_save_load [OF p p p p, of example_platform example_store
        "[toJSON (example_todo ''todo-1'' ''Buy milk'' False)]"] s n
    by simp
qed

end
